theory Spec2Isabelle
  imports Complex_Main "HOL-Library.Char_ord" "HOL-Library.List_Lexorder"
    "HOL-Library.Sublist" "HOL-Library.Multiset" "HOL-Library.AList"
begin

section \<open>Data model (src/types.ts)\<close>

text \<open>
  A JavaScript \<^verbatim>\<open>number\<close> that holds a P&L or a statistic derived from it is modelled as a
  real number: rounding of IEEE doubles is outside the model, and the two non-real values the
  analysis can produce on purpose (\<^verbatim>\<open>Infinity\<close> for a profit factor without losses,
  \<^verbatim>\<open>NaN\<close> for the hour of an unparsable date) are modelled explicitly where they occur.
  The consistency score, whose sums and squares can exceed the largest double, is modelled a
  second time in double arithmetic, with \<^verbatim>\<open>Infinity\<close> and \<^verbatim>\<open>NaN\<close>.
  Strings are byte lists; \<^verbatim>\<open>localeCompare\<close> on the keys that the journal builds
  from a date \<^verbatim>\<open>YYYY-MM-DD\<close> and a time \<^verbatim>\<open>HH:mm\<close> is the lexicographic
  order on them.
\<close>

datatype trade_type = Long | Short

datatype tag_value = Single string | Multi "string list"

text \<open>\<^verbatim>\<open>TradeTags\<close>: the own properties of the object in insertion order, as
  \<^verbatim>\<open>Object.entries\<close> lists them.\<close>

type_synonym trade_tags = "(string \<times> tag_value) list"

text \<open>\<^verbatim>\<open>Trade\<close>. An absent or empty \<^verbatim>\<open>time\<close> is the empty string (the code reads it
  as \<^verbatim>\<open>a.time || ''\<close>); the optional fields are options.\<close>

record trade =
  tid :: string
  date :: string
  time :: string
  pair :: string
  pnl :: real
  ttype :: "trade_type option"
  tnotes :: "string option"
  photos :: "string list option"
  tags :: "trade_tags option"
  rating :: "nat option"

section \<open>Consistency score (src/utils/offlineAnalysis.ts)\<close>

definition calculateConsistency :: "trade list \<Rightarrow> int" where
  "calculateConsistency trades =
     (if length trades < 5 then 0
      else
        let pnls = map pnl trades;
            mean = foldl (\<lambda>a b. a + b) 0 pnls / real (length pnls);
            stdDev = sqrt (foldl (\<lambda>a b. a + b) 0 (map (\<lambda>x. (x - mean) ^ 2) pnls)
                           / real (length pnls));
            avgAbsPnl = foldl (\<lambda>a b. a + \<bar>b\<bar>) 0 pnls / real (length pnls)
        in if avgAbsPnl = 0 then 1
           else
             let coefficientOfVariation = stdDev / avgAbsPnl;
                 score = round (10 * exp (- 0.6 * coefficientOfVariation))
             in max 1 (min 10 score))"

subsection \<open>The score in double arithmetic\<close>

text \<open>
  \<^const>\<open>calculateConsistency\<close> reads every \<^verbatim>\<open>number\<close> as a real. A P&L is a
  finite double, but the sums and squares of the function are not bounded by the largest
  double, and IEEE arithmetic then continues with \<^verbatim>\<open>Infinity\<close> and \<^verbatim>\<open>NaN\<close>.
  The model below follows the same function with these values: a finite result is the exact
  real result (rounding stays outside the model, and so does the sign of zero), a result of
  magnitude \<open>2 ^ 1024\<close> or more is an infinity, \<^verbatim>\<open>Infinity - Infinity\<close>,
  \<^verbatim>\<open>Infinity / Infinity\<close>, \<^verbatim>\<open>0 * Infinity\<close> and \<^verbatim>\<open>0 / 0\<close> are
  \<^verbatim>\<open>NaN\<close>, every operation on \<^verbatim>\<open>NaN\<close> is \<^verbatim>\<open>NaN\<close>, and
  \<^verbatim>\<open>Math.max\<close> and \<^verbatim>\<open>Math.min\<close> return \<^verbatim>\<open>NaN\<close> when an argument is
  \<^verbatim>\<open>NaN\<close>.
\<close>

datatype double = Finite real | PosInf | NegInf | NaN

definition overflow_bound :: real where
  "overflow_bound = 2 ^ 1024"

definition to_double :: "real \<Rightarrow> double" where
  "to_double r =
     (if overflow_bound \<le> r then PosInf else if r \<le> - overflow_bound then NegInf else Finite r)"

fun d_neg :: "double \<Rightarrow> double" where
  "d_neg (Finite x) = Finite (- x)"
| "d_neg PosInf = NegInf"
| "d_neg NegInf = PosInf"
| "d_neg NaN = NaN"

fun d_add :: "double \<Rightarrow> double \<Rightarrow> double" where
  "d_add NaN b = NaN"
| "d_add a NaN = NaN"
| "d_add PosInf NegInf = NaN"
| "d_add NegInf PosInf = NaN"
| "d_add PosInf b = PosInf"
| "d_add NegInf b = NegInf"
| "d_add a PosInf = PosInf"
| "d_add a NegInf = NegInf"
| "d_add (Finite x) (Finite y) = to_double (x + y)"

definition d_sub :: "double \<Rightarrow> double \<Rightarrow> double" where
  "d_sub a b = d_add a (d_neg b)"

fun d_sgn :: "double \<Rightarrow> real" where
  "d_sgn (Finite x) = sgn x"
| "d_sgn PosInf = 1"
| "d_sgn NegInf = - 1"
| "d_sgn NaN = 0"

text \<open>The infinity of a sign; no sign (a zero factor) gives \<^verbatim>\<open>NaN\<close>.\<close>

definition signed_inf :: "real \<Rightarrow> double" where
  "signed_inf s = (if s = 0 then NaN else if 0 < s then PosInf else NegInf)"

fun d_mul :: "double \<Rightarrow> double \<Rightarrow> double" where
  "d_mul NaN b = NaN"
| "d_mul a NaN = NaN"
| "d_mul (Finite x) (Finite y) = to_double (x * y)"
| "d_mul a b = signed_inf (d_sgn a * d_sgn b)"

fun d_div :: "double \<Rightarrow> double \<Rightarrow> double" where
  "d_div NaN b = NaN"
| "d_div a NaN = NaN"
| "d_div (Finite x) (Finite y) =
     (if y = 0 then signed_inf (sgn x) else to_double (x / y))"
| "d_div (Finite x) b = Finite 0"
| "d_div a (Finite y) = signed_inf (d_sgn a * (if y < 0 then - 1 else 1))"
| "d_div a b = NaN"

text \<open>\<^verbatim>\<open>Math.pow(a, 2)\<close>, \<^verbatim>\<open>Math.sqrt\<close>, \<^verbatim>\<open>Math.abs\<close>, \<^verbatim>\<open>Math.exp\<close>,
  \<^verbatim>\<open>Math.round\<close>, \<^verbatim>\<open>Math.min\<close> and \<^verbatim>\<open>Math.max\<close>.\<close>

definition d_pow2 :: "double \<Rightarrow> double" where
  "d_pow2 a = d_mul a a"

fun d_sqrt :: "double \<Rightarrow> double" where
  "d_sqrt (Finite x) = (if x < 0 then NaN else Finite (sqrt x))"
| "d_sqrt PosInf = PosInf"
| "d_sqrt a = NaN"

fun d_abs :: "double \<Rightarrow> double" where
  "d_abs (Finite x) = Finite \<bar>x\<bar>"
| "d_abs NaN = NaN"
| "d_abs a = PosInf"

fun d_exp :: "double \<Rightarrow> double" where
  "d_exp (Finite x) = to_double (exp x)"
| "d_exp PosInf = PosInf"
| "d_exp NegInf = Finite 0"
| "d_exp NaN = NaN"

fun d_round :: "double \<Rightarrow> double" where
  "d_round (Finite x) = Finite (of_int (round x))"
| "d_round a = a"

fun d_min :: "double \<Rightarrow> double \<Rightarrow> double" where
  "d_min NaN b = NaN"
| "d_min a NaN = NaN"
| "d_min NegInf b = NegInf"
| "d_min a NegInf = NegInf"
| "d_min PosInf b = b"
| "d_min a PosInf = a"
| "d_min (Finite x) (Finite y) = Finite (min x y)"

fun d_max :: "double \<Rightarrow> double \<Rightarrow> double" where
  "d_max NaN b = NaN"
| "d_max a NaN = NaN"
| "d_max PosInf b = PosInf"
| "d_max a PosInf = PosInf"
| "d_max NegInf b = b"
| "d_max a NegInf = a"
| "d_max (Finite x) (Finite y) = Finite (max x y)"

definition calculateConsistency_double :: "trade list \<Rightarrow> double" where
  "calculateConsistency_double trades =
     (if length trades < 5 then Finite 0
      else
        let pnls = map (\<lambda>t. Finite (pnl t)) trades;
            count = Finite (real (length pnls));
            mean = d_div (foldl (\<lambda>a b. d_add a b) (Finite 0) pnls) count;
            stdDev = d_sqrt (d_div (foldl (\<lambda>a b. d_add a b) (Finite 0)
                                      (map (\<lambda>x. d_pow2 (d_sub x mean)) pnls))
                                   count);
            avgAbsPnl = d_div (foldl (\<lambda>a b. d_add a (d_abs b)) (Finite 0) pnls) count
        in if avgAbsPnl = Finite 0 then Finite 1
           else
             let coefficientOfVariation = d_div stdDev avgAbsPnl;
                 score = d_round (d_mul (Finite 10)
                           (d_exp (d_mul (Finite (- 0.6)) coefficientOfVariation)))
             in d_max (Finite 1) (d_min (Finite 10) score))"

section \<open>Streak detector (useTradeCycleTracker)\<close>

datatype streak_type = Win | Loss

record streak =
  stype :: streak_type
  slength :: nat

definition STREAK_THRESHOLD :: nat where
  "STREAK_THRESHOLD = 3"

text \<open>The sort key of the comparator: \<^verbatim>\<open>a.date + (a.time || '')\<close>.\<close>

definition dateTimeKey :: "trade \<Rightarrow> string" where
  "dateTimeKey a = date a @ time a"

definition matchesStreakType :: "streak_type \<Rightarrow> trade \<Rightarrow> bool" where
  "matchesStreakType streakType currentTrade =
     ((streakType = Loss \<and> pnl currentTrade < 0) \<or> (streakType = Win \<and> 0 < pnl currentTrade))"

text \<open>The counting loop \<^verbatim>\<open>for (let i = sortedTrades.length - 1; i >= 0; i--)\<close>; the
  third argument is \<open>i + 1\<close>, so that 0 is the exit of the loop.\<close>

fun streakLoop :: "streak_type \<Rightarrow> trade list \<Rightarrow> nat \<Rightarrow> nat \<Rightarrow> nat" where
  "streakLoop streakType sortedTrades 0 streakLength = streakLength"
| "streakLoop streakType sortedTrades (Suc i) streakLength =
     (if matchesStreakType streakType (sortedTrades ! i)
      then streakLoop streakType sortedTrades i (Suc streakLength)
      else streakLength)"

text \<open>\<^verbatim>\<open>Array.prototype.sort\<close> is stable, and so is \<^const>\<open>sort_key\<close>: it is the one
  stable sort by this key. \<^verbatim>\<open>slice(-3)\<close> of a list of at least three elements drops
  all but the last three.\<close>

definition useTradeCycleTracker :: "trade list \<Rightarrow> streak option" where
  "useTradeCycleTracker trades =
     (if length trades < STREAK_THRESHOLD then None
      else
        let sortedTrades = sort_key dateTimeKey trades in
        if length sortedTrades < STREAK_THRESHOLD then None
        else
          let recentTrades = drop (length sortedTrades - STREAK_THRESHOLD) sortedTrades;
              lastTrade = last recentTrades;
              isLosingStreak = (pnl lastTrade < 0 \<and> list_all (\<lambda>trade. pnl trade < 0) recentTrades);
              isWinningStreak = (0 < pnl lastTrade \<and> list_all (\<lambda>trade. 0 < pnl trade) recentTrades)
          in if isLosingStreak \<or> isWinningStreak then
               let streakType = (if isLosingStreak then Loss else Win);
                   streakLength = streakLoop streakType sortedTrades (length sortedTrades) 0
               in if STREAK_THRESHOLD \<le> streakLength
                  then Some \<lparr>stype = streakType, slength = streakLength\<rparr>
                  else None
             else None)"

section \<open>Journal store (src/hooks/useTrades.ts)\<close>

text \<open>\<^verbatim>\<open>sortTrades\<close>: the stable sort of \<^verbatim>\<open>Array.prototype.sort\<close> with the
  comparator \<^verbatim>\<open>dateTimeB.localeCompare(dateTimeA)\<close>, newest key first, trades of equal
  keys in the order they had.\<close>

definition sortTrades :: "trade list \<Rightarrow> trade list" where
  "sortTrades tradeList = rev (sort_key dateTimeKey (rev tradeList))"

text \<open>\<^verbatim>\<open>Partial<Omit<Trade, 'id'>>\<close>: every field may be absent (\<open>None\<close>).\<close>

record trade_updates =
  date_up :: "string option"
  time_up :: "string option"
  pair_up :: "string option"
  pnl_up :: "real option"
  ttype_up :: "trade_type option option"
  tnotes_up :: "string option option"
  photos_up :: "string list option option"
  tags_up :: "trade_tags option option"
  rating_up :: "nat option option"

definition no_updates :: trade_updates where
  "no_updates = \<lparr>date_up = None, time_up = None, pair_up = None, pnl_up = None, ttype_up = None,
     tnotes_up = None, photos_up = None, tags_up = None, rating_up = None\<rparr>"

text \<open>\<^verbatim>\<open>{ ...originalTrade, ...updates }\<close>.\<close>

definition spread :: "trade \<Rightarrow> trade_updates \<Rightarrow> trade" where
  "spread original updates =
     \<lparr>tid = tid original,
      date = (case date_up updates of Some v \<Rightarrow> v | None \<Rightarrow> date original),
      time = (case time_up updates of Some v \<Rightarrow> v | None \<Rightarrow> time original),
      pair = (case pair_up updates of Some v \<Rightarrow> v | None \<Rightarrow> pair original),
      pnl = (case pnl_up updates of Some v \<Rightarrow> v | None \<Rightarrow> pnl original),
      ttype = (case ttype_up updates of Some v \<Rightarrow> v | None \<Rightarrow> ttype original),
      tnotes = (case tnotes_up updates of Some v \<Rightarrow> v | None \<Rightarrow> tnotes original),
      photos = (case photos_up updates of Some v \<Rightarrow> v | None \<Rightarrow> photos original),
      tags = (case tags_up updates of Some v \<Rightarrow> v | None \<Rightarrow> tags original),
      rating = (case rating_up updates of Some v \<Rightarrow> v | None \<Rightarrow> rating original)\<rparr>"

text \<open>The truth value of an optional string: absent and empty are false.\<close>

definition truthy :: "string option \<Rightarrow> bool" where
  "truthy s = (case s of Some v \<Rightarrow> v \<noteq> [] | None \<Rightarrow> False)"

text \<open>\<^verbatim>\<open>updateTrade\<close>, as a function of the list in the store (the write to the database
  succeeds). The list is sorted again only \<^verbatim>\<open>if (updates.date || updates.time)\<close>.\<close>

definition updateTrade :: "string \<Rightarrow> trade_updates \<Rightarrow> trade list \<Rightarrow> trade list" where
  "updateTrade tradeId updates trades =
     (case find (\<lambda>t. tid t = tradeId) trades of
        None \<Rightarrow> trades
      | Some originalTrade \<Rightarrow>
          let updatedTrade = spread originalTrade updates;
              updatedTrades = map (\<lambda>t. if tid t = tradeId then updatedTrade else t) trades
          in if truthy (date_up updates) \<or> truthy (time_up updates)
             then sortTrades updatedTrades
             else updatedTrades)"

section \<open>Offline analysis (src/utils/offlineAnalysis.ts)\<close>

text \<open>A \<^verbatim>\<open>number\<close> that may be \<^verbatim>\<open>Infinity\<close>: the profit factor and the
  reward-to-risk ratio are \<^verbatim>\<open>Infinity\<close> when there is no loss.\<close>

datatype num = Num real | Infinity

fun isFinite :: "num \<Rightarrow> bool" where
  "isFinite (Num x) = True"
| "isFinite Infinity = False"

fun num_less :: "num \<Rightarrow> num \<Rightarrow> bool" where
  "num_less (Num a) (Num b) = (a < b)"
| "num_less (Num a) Infinity = True"
| "num_less Infinity b = False"

text \<open>Multiplication by a positive constant.\<close>

fun num_times :: "num \<Rightarrow> real \<Rightarrow> num" where
  "num_times (Num a) c = Num (a * c)"
| "num_times Infinity c = Infinity"

record tag_stat =
  tag :: string
  totalPnl :: real
  tradeCount :: nat
  winRate :: real

datatype topic = Performance | Opportunity | Risk | Strategy | Timing | Default_topic
  | Consistency | General

record actionable_insight =
  pattern :: string
  recommendation :: string
  relatedTags :: "string list"
  topic :: "topic option"

record key_observation =
  text_o :: string
  topic_o :: "topic option"

datatype grade_letter = GradeA | GradeB | GradeC | GradeD

record performance_grade =
  grade :: grade_letter
  summary :: string

record key_metrics =
  consistencyScore :: int
  profitFactor :: num
  winRate_m :: real
  totalPnl_m :: real
  tradeCount_m :: nat
  avgWin :: real
  avgLoss :: real

record tag_performance =
  profitable :: "tag_stat list"
  unprofitable :: "tag_stat list"

record analysis_result =
  overallSummary :: string
  strengths :: "string list"
  weaknesses :: "string list"
  actionableInsights :: "actionable_insight list"
  keyObservations :: "key_observation list"
  performanceGrade :: performance_grade
  keyMetrics :: key_metrics
  tagPerformance :: "tag_performance option"

text \<open>The translation function of i18next (a key and its interpolation values, numbers in
  decimal) and the currency formatter are arguments of the analysis, as in the source.
  \<^verbatim>\<open>Number.prototype.toFixed\<close> is an argument of the model.\<close>

type_synonym tfunction = "string \<Rightarrow> (string \<times> string) list \<Rightarrow> string"

type_synonym to_fixed = "nat \<Rightarrow> num \<Rightarrow> string"

fun string_of_nat :: "nat \<Rightarrow> string" where
  "string_of_nat n =
     (if n < 10 then [char_of (48 + n)]
      else string_of_nat (n div 10) @ [char_of (48 + n mod 10)])"

definition MIN_TAG_TRADES :: nat where
  "MIN_TAG_TRADES = 3"

definition TREND_ANALYSIS_PERIOD :: nat where
  "TREND_ANALYSIS_PERIOD = 20"

record tag_stats =
  pnl_t :: real
  wins_t :: nat
  losses_t :: nat
  count_t :: nat

definition formatPercent :: "to_fixed \<Rightarrow> real \<Rightarrow> string" where
  "formatPercent toFixed value = toFixed 0 (Num value) @ ''%''"

definition calculatePerformanceGrade :: "key_metrics \<Rightarrow> tfunction \<Rightarrow> performance_grade" where
  "calculatePerformanceGrade metrics t =
     (let pfScore =
            (case profitFactor metrics of
               Num pf \<Rightarrow> (if 2 < pf then 10 else if 1.5 < pf then 8 else if 1.2 < pf then 6
                          else if 1 < pf then 4 else 2)
             | Infinity \<Rightarrow> (10::real));
          wrScore =
            (if 65 < winRate_m metrics then 10 else if 55 < winRate_m metrics then 8
             else if 50 < winRate_m metrics then 6 else if 40 < winRate_m metrics then 4
             else (2::real));
          totalScore = pfScore * 0.45 + wrScore * 0.35
                       + real_of_int (consistencyScore metrics) * 0.2
      in if 8.5 < totalScore then \<lparr>grade = GradeA, summary = t ''aiInsights.grade.summaryA'' []\<rparr>
         else if 7 < totalScore then \<lparr>grade = GradeB, summary = t ''aiInsights.grade.summaryB'' []\<rparr>
         else if 5 < totalScore then \<lparr>grade = GradeC, summary = t ''aiInsights.grade.summaryC'' []\<rparr>
         else \<lparr>grade = GradeD, summary = t ''aiInsights.grade.summaryD'' []\<rparr>)"

definition analyzePerformanceTrend ::
    "to_fixed \<Rightarrow> trade list \<Rightarrow> real \<Rightarrow> num \<Rightarrow> tfunction \<Rightarrow> actionable_insight option" where
  "analyzePerformanceTrend toFixed trades overallWinRate overallProfitFactor t =
     (if length trades < TREND_ANALYSIS_PERIOD * 2 then None
      else
        let recentTrades = take TREND_ANALYSIS_PERIOD trades;
            recentWins = length (filter (\<lambda>t. 0 < pnl t) recentTrades);
            recentWinRate = (if 0 < length recentTrades
                             then real recentWins / real (length recentTrades) * 100 else 0);
            recentTotalWinPnl =
              foldl (\<lambda>acc t. acc + pnl t) 0 (filter (\<lambda>t. 0 < pnl t) recentTrades);
            recentTotalLossPnl =
              foldl (\<lambda>acc t. acc + pnl t) 0 (filter (\<lambda>t. pnl t < 0) recentTrades);
            recentProfitFactor = (if recentTotalLossPnl \<noteq> 0
                                  then Num \<bar>recentTotalWinPnl / recentTotalLossPnl\<bar>
                                  else Infinity);
            winRateDrop = overallWinRate - recentWinRate;
            isDegraded = (15 < winRateDrop \<or>
                          (isFinite overallProfitFactor \<and>
                           num_less recentProfitFactor (num_times overallProfitFactor 0.7)))
        in if isDegraded then
             Some \<lparr>pattern = t ''aiInsights.offline.trendPattern''
                       [(''count'', string_of_nat TREND_ANALYSIS_PERIOD),
                        (''winRate'', formatPercent toFixed recentWinRate)],
                   recommendation = t ''aiInsights.offline.trendRec'' [],
                   relatedTags = [],
                   topic = Some Performance\<rparr>
           else None)"

subsection \<open>Hour of day\<close>

definition is_digit :: "char \<Rightarrow> bool" where
  "is_digit c = (CHR ''0'' \<le> c \<and> c \<le> CHR ''9'')"

definition two_digits :: "char \<Rightarrow> char \<Rightarrow> nat option" where
  "two_digits a b =
     (if is_digit a \<and> is_digit b then Some (10 * (of_char a - 48) + (of_char b - 48)) else None)"

text \<open>\<^verbatim>\<open>YYYY-MM-DD\<close> with a month 01..12 and a day 01..31.\<close>

definition isoDate :: "string \<Rightarrow> bool" where
  "isoDate d =
     (case d of
        [y1, y2, y3, y4, s1, m1, m2, s2, d1, d2] \<Rightarrow>
          list_all is_digit [y1, y2, y3, y4] \<and> s1 = CHR ''-'' \<and> s2 = CHR ''-'' \<and>
          (case (two_digits m1 m2, two_digits d1 d2) of
             (Some m, Some dd) \<Rightarrow> 1 \<le> m \<and> m \<le> 12 \<and> 1 \<le> dd \<and> dd \<le> 31
           | _ \<Rightarrow> False)
      | _ \<Rightarrow> False)"

text \<open>\<^verbatim>\<open>new Date(`${date}T${time}`).getHours()\<close>. The journal writes dates as
  \<^verbatim>\<open>YYYY-MM-DD\<close> and times as \<^verbatim>\<open>HH:mm\<close>; that date-time form is read as local
  time and its hour is \<^verbatim>\<open>HH\<close> (0 for \<^verbatim>\<open>24:00\<close>; a time that a
  daylight-saving change skips aside). A string that is not of this form, such as a date followed by \<^verbatim>\<open>T\<close>
  and no time, is an invalid date, whose hour is \<^verbatim>\<open>NaN\<close>: the value \<open>None\<close>.\<close>

definition getHours :: "string \<Rightarrow> string \<Rightarrow> nat option" where
  "getHours d tm =
     (if isoDate d then
        (case tm of
           [h1, h2, c, m1, m2] \<Rightarrow>
             (case (two_digits h1 h2, two_digits m1 m2) of
                (Some h, Some m) \<Rightarrow>
                  if c = CHR '':'' \<and> h < 24 \<and> m < 60 then Some h
                  else if c = CHR '':'' \<and> h = 24 \<and> m = 0 then Some 0
                  else None
              | _ \<Rightarrow> None)
         | _ \<Rightarrow> None)
      else None)"

record hour_stats =
  pnl_h :: real
  count_h :: nat

text \<open>The \<^verbatim>\<open>Map\<close> from hour to statistics, in insertion order; \<^verbatim>\<open>NaN\<close> is a key
  like any other (keys are compared by SameValueZero).\<close>

definition hourlyStats :: "trade list \<Rightarrow> (nat option \<times> hour_stats) list" where
  "hourlyStats trades =
     foldl (\<lambda>acc trade.
        let hour = getHours (date trade) (time trade);
            stats = (case map_of acc hour of Some s \<Rightarrow> s | None \<Rightarrow> \<lparr>pnl_h = 0, count_h = 0\<rparr>)
        in AList.update hour \<lparr>pnl_h = pnl_h stats + pnl trade, count_h = count_h stats + 1\<rparr> acc)
       [] trades"

record significant_hour =
  hour :: "nat option"
  pnl_sh :: real
  count_sh :: nat
  avgPnl_sh :: real

definition significantHours :: "trade list \<Rightarrow> significant_hour list" where
  "significantHours trades =
     sort_key (\<lambda>a. - avgPnl_sh a)
       (map (\<lambda>(hour, stats). \<lparr>hour = hour, pnl_sh = pnl_h stats, count_sh = count_h stats,
                               avgPnl_sh = pnl_h stats / real (count_h stats)\<rparr>)
          (filter (\<lambda>(hour, stats). 5 \<le> count_h stats) (hourlyStats trades)))"

text \<open>A number in a template literal: \<^verbatim>\<open>NaN\<close> prints as \<^verbatim>\<open>NaN\<close>, and
  \<^verbatim>\<open>NaN + 1\<close> is \<^verbatim>\<open>NaN\<close>.\<close>

definition show_hour :: "nat option \<Rightarrow> string" where
  "show_hour h = (case h of None \<Rightarrow> ''NaN'' | Some n \<Rightarrow> string_of_nat n)"

definition findGoldenHour ::
    "trade list \<Rightarrow> tfunction \<Rightarrow> (real \<Rightarrow> string) \<Rightarrow> actionable_insight option" where
  "findGoldenHour trades t formatCurrency =
     (case significantHours trades of
        [] \<Rightarrow> None
      | bestHour # rest \<Rightarrow>
          if 0 < avgPnl_sh bestHour then
            let startTime = show_hour (hour bestHour) @ '':00'';
                endTime = show_hour (map_option (\<lambda>h. h + 1) (hour bestHour)) @ '':00''
            in Some \<lparr>pattern = t ''aiInsights.offline.goldenHourPattern''
                         [(''startTime'', startTime), (''endTime'', endTime),
                          (''avgPnl'', formatCurrency (avgPnl_sh bestHour))],
                     recommendation = t ''aiInsights.offline.goldenHourRec'' [],
                     relatedTags = [],
                     topic = Some Timing\<rparr>
          else None)"

subsection \<open>Risk profile\<close>

definition analyzeRiskProfile :: "to_fixed \<Rightarrow> real \<Rightarrow> real \<Rightarrow> real \<Rightarrow> tfunction \<Rightarrow> key_observation" where
  "analyzeRiskProfile toFixed avgWin' avgLoss' winRate' t =
     (let rrRatio = (if avgLoss' \<noteq> 0 then Num \<bar>avgWin' / avgLoss'\<bar> else Infinity);
          profileKey =
            (if num_less (Num 2.5) rrRatio \<and> winRate' < 45 then ''riskProfile_sniper''
             else if num_less rrRatio (Num 1.5) \<and> 55 < winRate' then ''riskProfile_scalper''
             else if num_less rrRatio (Num 1.2) \<and> winRate' < 45 then ''riskProfile_highRisk''
             else if num_less (Num 2) rrRatio \<and> 50 < winRate' then ''riskProfile_effective''
             else ''riskProfile_balanced'')
      in \<lparr>text_o = t (''aiInsights.offline.'' @ profileKey)
                      [(''rr'', if isFinite rrRatio then toFixed 1 rrRatio else ''N/A''),
                       (''winRate'', formatPercent toFixed winRate')],
          topic_o = Some Risk\<rparr>)"

subsection \<open>Tag statistics\<close>

text \<open>\<^verbatim>\<open>formatTag\<close> (src/utils/tags.ts): what follows the first colon, or the whole
  tag when it has none.\<close>

definition formatTag :: "string \<Rightarrow> string" where
  "formatTag tg =
     (if CHR '':'' \<in> set tg then tl (dropWhile (\<lambda>c. c \<noteq> CHR '':'') tg) else tg)"

definition allTradeTags :: "trade_tags \<Rightarrow> string list" where
  "allTradeTags tgs =
     concat (map (\<lambda>(category, value).
        case value of
          Multi vs \<Rightarrow> map (\<lambda>v. category @ '':'' @ v) vs
        | Single v \<Rightarrow> (if v \<noteq> [] then [category @ '':'' @ v] else [])) tgs)"

text \<open>The body of \<^verbatim>\<open>allTradeTags.forEach\<close>: one tag of one trade of P&L \<open>p\<close>. The
  \<^verbatim>\<open>Map\<close> keeps its keys in insertion order.\<close>

definition tagStatsStep :: "real \<Rightarrow> (string \<times> tag_stats) list \<Rightarrow> string \<Rightarrow> (string \<times> tag_stats) list" where
  "tagStatsStep p tagStats tg =
     (let stats = (case map_of tagStats tg of
                     Some s \<Rightarrow> s
                   | None \<Rightarrow> \<lparr>pnl_t = 0, wins_t = 0, losses_t = 0, count_t = 0\<rparr>);
          stats1 = stats\<lparr>pnl_t := pnl_t stats + p, count_t := count_t stats + 1\<rparr>;
          stats2 = (if 0 < p then stats1\<lparr>wins_t := wins_t stats1 + 1\<rparr>
                    else if p < 0 then stats1\<lparr>losses_t := losses_t stats1 + 1\<rparr>
                    else stats1)
      in AList.update tg stats2 tagStats)"

definition computeTagStats :: "trade list \<Rightarrow> (string \<times> tag_stats) list" where
  "computeTagStats trades =
     foldl (\<lambda>tagStats trade.
        case tags trade of
          None \<Rightarrow> tagStats
        | Some tgs \<Rightarrow> foldl (tagStatsStep (pnl trade)) tagStats (allTradeTags tgs))
       [] trades"

record sig_tag =
  tag_s :: string
  pnl_s :: real
  wins_s :: nat
  losses_s :: nat
  count_s :: nat
  winRate_s :: real
  avgPnl_s :: real

definition significantTags :: "trade list \<Rightarrow> sig_tag list" where
  "significantTags trades =
     map (\<lambda>(tg, stats).
            \<lparr>tag_s = tg, pnl_s = pnl_t stats, wins_s = wins_t stats, losses_s = losses_t stats,
             count_s = count_t stats,
             winRate_s = (if 0 < count_t stats
                          then real (wins_t stats) / real (count_t stats) * 100 else 0),
             avgPnl_s = (if 0 < count_t stats then pnl_t stats / real (count_t stats) else 0)\<rparr>)
       (filter (\<lambda>(tg, stats). MIN_TAG_TRADES \<le> count_t stats) (computeTagStats trades))"

text \<open>\<^verbatim>\<open>sort((a, b) => b.pnl - a.pnl)\<close> is the stable sort by descending P&L, and
  \<^verbatim>\<open>sort((a, b) => a.pnl - b.pnl)\<close> the stable sort by ascending P&L.\<close>

definition profitableTags :: "trade list \<Rightarrow> sig_tag list" where
  "profitableTags trades =
     take 5 (sort_key (\<lambda>a. - pnl_s a) (filter (\<lambda>tg. 0 < pnl_s tg) (significantTags trades)))"

definition unprofitableTags :: "trade list \<Rightarrow> sig_tag list" where
  "unprofitableTags trades =
     take 5 (sort_key pnl_s (filter (\<lambda>tg. pnl_s tg < 0) (significantTags trades)))"

definition toTagStat :: "sig_tag \<Rightarrow> tag_stat" where
  "toTagStat t = \<lparr>tag = tag_s t, totalPnl = pnl_s t, tradeCount = count_s t, winRate = winRate_s t\<rparr>"

subsection \<open>Lifetime metrics\<close>

definition totalPnl_of :: "trade list \<Rightarrow> real" where
  "totalPnl_of trades = foldl (\<lambda>acc trade. acc + pnl trade) 0 trades"

definition totalWins :: "trade list \<Rightarrow> nat" where
  "totalWins trades = length (filter (\<lambda>t. 0 < pnl t) trades)"

definition totalLosses :: "trade list \<Rightarrow> nat" where
  "totalLosses trades = length (filter (\<lambda>t. pnl t < 0) trades)"

definition winRate_of :: "trade list \<Rightarrow> real" where
  "winRate_of trades =
     (if 0 < length trades then real (totalWins trades) / real (length trades) * 100 else 0)"

definition totalWinPnl :: "trade list \<Rightarrow> real" where
  "totalWinPnl trades = foldl (\<lambda>acc t. acc + pnl t) 0 (filter (\<lambda>t. 0 < pnl t) trades)"

definition totalLossPnl :: "trade list \<Rightarrow> real" where
  "totalLossPnl trades = foldl (\<lambda>acc t. acc + pnl t) 0 (filter (\<lambda>t. pnl t < 0) trades)"

definition avgWin_of :: "trade list \<Rightarrow> real" where
  "avgWin_of trades =
     (if 0 < totalWins trades then totalWinPnl trades / real (totalWins trades) else 0)"

definition avgLoss_of :: "trade list \<Rightarrow> real" where
  "avgLoss_of trades =
     (if 0 < totalLosses trades then totalLossPnl trades / real (totalLosses trades) else 0)"

definition profitFactor_of :: "trade list \<Rightarrow> num" where
  "profitFactor_of trades =
     (if totalLossPnl trades \<noteq> 0 then Num \<bar>totalWinPnl trades / totalLossPnl trades\<bar>
      else Infinity)"

subsection \<open>The report\<close>

definition strengths_of :: "to_fixed \<Rightarrow> trade list \<Rightarrow> tfunction \<Rightarrow> string list" where
  "strengths_of toFixed trades t =
     (if 55 < winRate_of trades
      then [t ''aiInsights.offline.strengthWinRate''
              [(''winRate'', formatPercent toFixed (winRate_of trades))]]
      else []) @
     (if num_less (Num 1.5) (profitFactor_of trades)
      then [t ''aiInsights.offline.strengthProfitFactor''
              [(''profitFactor'', toFixed 2 (profitFactor_of trades))]]
      else [])"

definition weaknesses_of :: "to_fixed \<Rightarrow> trade list \<Rightarrow> tfunction \<Rightarrow> string list" where
  "weaknesses_of toFixed trades t =
     (if winRate_of trades < 45
      then [t ''aiInsights.offline.weaknessWinRate''
              [(''winRate'', formatPercent toFixed (winRate_of trades))]]
      else []) @
     (if num_less (profitFactor_of trades) (Num 1) \<and> isFinite (profitFactor_of trades)
      then [t ''aiInsights.offline.weaknessProfitFactor''
              [(''profitFactor'', toFixed 2 (profitFactor_of trades))]]
      else [])"

text \<open>The tag insights. The two \<^verbatim>\<open>significantTags.sort\<close> calls sort the array in place,
  one after the other, and the mistake tags are filtered from the array as the second sort
  left it.\<close>

definition tagInsights :: "trade list \<Rightarrow> tfunction \<Rightarrow> (real \<Rightarrow> string) \<Rightarrow> actionable_insight list" where
  "tagInsights trades t formatCurrency =
     (let sortedDesc = sort_key (\<lambda>a. - pnl_s a) (significantTags trades);
          sortedAsc = sort_key pnl_s sortedDesc;
          mistakeTags = filter (\<lambda>t. prefix ''mistakes:'' (tag_s t)) sortedAsc
      in concat (map (\<lambda>tg.
            if 0 < pnl_s tg
            then [\<lparr>pattern = t ''aiInsights.offline.strengthTag''
                      [(''tag'', formatTag (tag_s tg)), (''pnl'', formatCurrency (pnl_s tg))],
                    recommendation = t ''aiInsights.offline.strengthTagRec'' [],
                    relatedTags = [tag_s tg], topic = Some Strategy\<rparr>]
            else []) (take 1 sortedDesc))
         @ concat (map (\<lambda>tg.
            if pnl_s tg < 0
            then [\<lparr>pattern = t ''aiInsights.offline.weaknessTag''
                      [(''tag'', formatTag (tag_s tg)), (''pnl'', formatCurrency (pnl_s tg))],
                    recommendation = t ''aiInsights.offline.weaknessTagRec'' [],
                    relatedTags = [tag_s tg], topic = Some Strategy\<rparr>]
            else []) (take 1 sortedAsc))
         @ (case sort_key pnl_s mistakeTags of
              [] \<Rightarrow> []
            | worstMistake # others \<Rightarrow>
                if pnl_s worstMistake < 0
                then [\<lparr>pattern = t ''aiInsights.offline.patternMistake''
                          [(''mistake'', formatTag (tag_s worstMistake)),
                           (''pnl'', formatCurrency (pnl_s worstMistake))],
                        recommendation = t ''aiInsights.offline.recommendationMistake'' [],
                        relatedTags = [tag_s worstMistake], topic = Some Risk\<rparr>]
                else []))"

definition option_list :: "'a option \<Rightarrow> 'a list" where
  "option_list x = (case x of None \<Rightarrow> [] | Some v \<Rightarrow> [v])"

definition keyMetrics_of :: "trade list \<Rightarrow> key_metrics" where
  "keyMetrics_of trades =
     \<lparr>consistencyScore = calculateConsistency trades,
      profitFactor = profitFactor_of trades,
      winRate_m = winRate_of trades,
      totalPnl_m = totalPnl_of trades,
      tradeCount_m = length trades,
      avgWin = avgWin_of trades,
      avgLoss = avgLoss_of trades\<rparr>"

definition analyzeTradesOffline ::
    "to_fixed \<Rightarrow> trade list \<Rightarrow> tfunction \<Rightarrow> (real \<Rightarrow> string) \<Rightarrow> analysis_result" where
  "analyzeTradesOffline toFixed trades t formatCurrency =
     (let performanceTrendInsight =
            analyzePerformanceTrend toFixed trades (winRate_of trades) (profitFactor_of trades) t;
          goldenHourInsight = findGoldenHour trades t formatCurrency;
          actionableInsights' = tagInsights trades t formatCurrency
            @ option_list performanceTrendInsight @ option_list goldenHourInsight;
          keyObservations' =
            [\<lparr>text_o = t ''aiInsights.offline.observationOverall''
                 [(''tradeCount'', string_of_nat (length trades)),
                  (''totalPnl'', formatCurrency (totalPnl_of trades))],
               topic_o = Some General\<rparr>,
             analyzeRiskProfile toFixed (avgWin_of trades) (avgLoss_of trades)
               (winRate_of trades) t];
          summary' = t ''aiInsights.offline.summary''
            [(''result'', if 0 < totalPnl_of trades then t ''common.profitable'' []
                          else t ''common.unprofitable'' []),
             (''tradeCount'', string_of_nat (length trades)),
             (''winRate'', formatPercent toFixed (winRate_of trades))];
          keyMetrics' = keyMetrics_of trades
      in \<lparr>overallSummary = summary',
          strengths = strengths_of toFixed trades t,
          weaknesses = weaknesses_of toFixed trades t,
          actionableInsights = actionableInsights',
          keyObservations = keyObservations',
          performanceGrade = calculatePerformanceGrade keyMetrics' t,
          keyMetrics = keyMetrics',
          tagPerformance = Some \<lparr>profitable = map toTagStat (profitableTags trades),
                                  unprofitable = map toTagStat (unprofitableTags trades)\<rparr>\<rparr>)"

section \<open>Tag performance card (TagPerformance component)\<close>

record ui_stat =
  totalPnl_u :: real
  tradeCount_u :: nat
  winCount_u :: nat

record ui_tag_stat =
  tag_u :: string
  totalPnl_ut :: real
  tradeCount_ut :: nat
  winCount_ut :: nat
  winRate_ut :: real

text \<open>\<^verbatim>\<open>Object.values(trade.tags).flat()\<close>, of which the non-empty strings count.\<close>

definition flatTagValues :: "trade_tags \<Rightarrow> string list" where
  "flatTagValues tgs =
     filter (\<lambda>tg. tg \<noteq> [])
       (concat (map (\<lambda>(category, value). case value of Multi vs \<Rightarrow> vs | Single v \<Rightarrow> [v]) tgs))"

definition statsMapStep :: "real \<Rightarrow> (string \<times> ui_stat) list \<Rightarrow> string \<Rightarrow> (string \<times> ui_stat) list" where
  "statsMapStep p statsMap tg =
     (let stat = (case map_of statsMap tg of
                    Some s \<Rightarrow> s
                  | None \<Rightarrow> \<lparr>totalPnl_u = 0, tradeCount_u = 0, winCount_u = 0\<rparr>);
          stat1 = stat\<lparr>totalPnl_u := totalPnl_u stat + p, tradeCount_u := tradeCount_u stat + 1\<rparr>;
          stat2 = (if 0 < p then stat1\<lparr>winCount_u := winCount_u stat1 + 1\<rparr> else stat1)
      in AList.update tg stat2 statsMap)"

definition statsMap :: "trade list \<Rightarrow> (string \<times> ui_stat) list" where
  "statsMap trades =
     foldl (\<lambda>m trade.
        case tags trade of
          None \<Rightarrow> m
        | Some tgs \<Rightarrow> foldl (statsMapStep (pnl trade)) m (flatTagValues tgs))
       [] trades"

definition tagStats :: "trade list \<Rightarrow> ui_tag_stat list" where
  "tagStats trades =
     filter (\<lambda>s. 3 \<le> tradeCount_ut s)
       (map (\<lambda>(tg, stat).
               \<lparr>tag_u = tg, totalPnl_ut = totalPnl_u stat, tradeCount_ut = tradeCount_u stat,
                winCount_ut = winCount_u stat,
                winRate_ut = (if 0 < tradeCount_u stat
                              then real (winCount_u stat) / real (tradeCount_u stat) * 100
                              else 0)\<rparr>)
          (statsMap trades))"

definition topProfitable :: "trade list \<Rightarrow> ui_tag_stat list" where
  "topProfitable trades =
     take 3 (sort_key (\<lambda>a. - totalPnl_ut a) (filter (\<lambda>s. 0 < totalPnl_ut s) (tagStats trades)))"

definition topUnprofitable :: "trade list \<Rightarrow> ui_tag_stat list" where
  "topUnprofitable trades =
     take 3 (sort_key totalPnl_ut (filter (\<lambda>s. totalPnl_ut s < 0) (tagStats trades)))"

section \<open>The analyze operation (src/components/AIAnalysisView.tsx, handleAnalyze)\<close>

text \<open>\<^verbatim>\<open>Partial<AIAnalysisResult>\<close>: each property is present or not.\<close>

record partial_result =
  overallSummary_p :: "string option"
  strengths_p :: "string list option"
  weaknesses_p :: "string list option"
  actionableInsights_p :: "actionable_insight list option"
  keyObservations_p :: "key_observation list option"
  performanceGrade_p :: "performance_grade option"
  keyMetrics_p :: "key_metrics option"
  tagPerformance_p :: "tag_performance option option"

record view_state =
  isLoading :: bool
  error :: "string option"
  analysisResult :: "analysis_result option"

definition or_else :: "'a option \<Rightarrow> 'a \<Rightarrow> 'a" where
  "or_else x d = (case x of None \<Rightarrow> d | Some v \<Rightarrow> v)"

text \<open>The object spread \<^verbatim>\<open>{...offlineResult, ...aiResult, keyMetrics: ...,
  performanceGrade: ..., tagPerformance: ...}\<close>: a property of the enrichment replaces
  that of the offline result, and the three listed last replace both.\<close>

definition mergeResults :: "analysis_result \<Rightarrow> partial_result \<Rightarrow> analysis_result" where
  "mergeResults offlineResult aiResult =
     (let spread =
            \<lparr>overallSummary = or_else (overallSummary_p aiResult) (overallSummary offlineResult),
             strengths = or_else (strengths_p aiResult) (strengths offlineResult),
             weaknesses = or_else (weaknesses_p aiResult) (weaknesses offlineResult),
             actionableInsights =
               or_else (actionableInsights_p aiResult) (actionableInsights offlineResult),
             keyObservations = or_else (keyObservations_p aiResult) (keyObservations offlineResult),
             performanceGrade =
               or_else (performanceGrade_p aiResult) (performanceGrade offlineResult),
             keyMetrics = or_else (keyMetrics_p aiResult) (keyMetrics offlineResult),
             tagPerformance = or_else (tagPerformance_p aiResult) (tagPerformance offlineResult)\<rparr>
      in spread\<lparr>keyMetrics := keyMetrics offlineResult,
                 performanceGrade := performanceGrade offlineResult,
                 tagPerformance := tagPerformance offlineResult\<rparr>)"

text \<open>\<^verbatim>\<open>handleAnalyze\<close>, as the state of the view once it has run. The awaited
  \<^verbatim>\<open>analyzeTradingPerformance(trades)\<close> is the argument \<open>enrich\<close>: a rejection
  (\<open>Inl\<close>, with its message) or the value it resolves to.\<close>

definition handleAnalyze ::
    "to_fixed \<Rightarrow> (trade list \<Rightarrow> string + partial_result) \<Rightarrow> trade list \<Rightarrow> tfunction
     \<Rightarrow> (real \<Rightarrow> string) \<Rightarrow> view_state" where
  "handleAnalyze toFixed enrich trades t formatCurrency =
     (let offlineResult = analyzeTradesOffline toFixed trades t formatCurrency;
          finalResult = (case enrich trades of
                           Inr aiResult \<Rightarrow> mergeResults offlineResult aiResult
                         | Inl aiError \<Rightarrow> offlineResult)
      in \<lparr>isLoading = False, error = None, analysisResult = Some finalResult\<rparr>)"

section \<open>Report import (parseMt4Trades, parseMt5Trades)\<close>

subsection \<open>String operations\<close>

text \<open>The string methods of JavaScript that the parsers use, on byte strings: letters are
  the ASCII letters and white space is the ASCII white space.\<close>

definition is_space :: "char \<Rightarrow> bool" where
  "is_space c = (c \<in> set [CHR '' '', CHR 0x09, CHR 0x0A, CHR 0x0B, CHR 0x0C, CHR 0x0D])"

definition trim :: "string \<Rightarrow> string" where
  "trim s = rev (dropWhile is_space (rev (dropWhile is_space s)))"

definition lower_char :: "char \<Rightarrow> char" where
  "lower_char c = (if CHR ''A'' \<le> c \<and> c \<le> CHR ''Z'' then char_of (of_char c + (32::nat)) else c)"

definition upper_char :: "char \<Rightarrow> char" where
  "upper_char c = (if CHR ''a'' \<le> c \<and> c \<le> CHR ''z'' then char_of (of_char c - (32::nat)) else c)"

definition toLowerCase :: "string \<Rightarrow> string" where
  "toLowerCase s = map lower_char s"

definition toUpperCase :: "string \<Rightarrow> string" where
  "toUpperCase s = map upper_char s"

text \<open>\<^verbatim>\<open>String.prototype.includes\<close>.\<close>

fun includes_str :: "string \<Rightarrow> string \<Rightarrow> bool" where
  "includes_str [] pat = (pat = [])"
| "includes_str (c # cs) pat = (prefix pat (c # cs) \<or> includes_str cs pat)"

text \<open>\<^verbatim>\<open>s.split(' ')\<close>: the pieces between single spaces (at least one piece).\<close>

fun split_space :: "string \<Rightarrow> string list" where
  "split_space [] = [[]]"
| "split_space (c # cs) =
     (if c = CHR '' '' then [] # split_space cs
      else (case split_space cs of p # ps \<Rightarrow> (c # p) # ps | [] \<Rightarrow> [[c]]))"

text \<open>\<^verbatim>\<open>lastIndexOf\<close>, with \<open>-1\<close> when the character does not occur.\<close>

definition lastIndexOf :: "string \<Rightarrow> char \<Rightarrow> int" where
  "lastIndexOf s c =
     (if c \<in> set s then int (length s) - 1 - int (length (takeWhile (\<lambda>x. x \<noteq> c) (rev s))) else - 1)"

text \<open>\<^verbatim>\<open>Array.prototype.findIndex\<close>, with \<open>None\<close> for \<open>-1\<close>.\<close>

definition findIndex :: "('a \<Rightarrow> bool) \<Rightarrow> 'a list \<Rightarrow> nat option" where
  "findIndex P xs = (if list_ex P xs then Some (length (takeWhile (\<lambda>x. \<not> P x) xs)) else None)"

subsection \<open>P&L strings\<close>

text \<open>\<^verbatim>\<open>parsePnlString\<close>. \<^verbatim>\<open>parseFloat\<close> is an argument of the model, with
  \<open>None\<close> for \<^verbatim>\<open>NaN\<close>; an absent string (\<^verbatim>\<open>null\<close>, \<^verbatim>\<open>undefined\<close>) is
  \<open>None\<close>. The second \<^verbatim>\<open>replace\<close> of the comma branch has a string pattern and
  replaces the first comma only.\<close>

type_synonym parse_float = "string \<Rightarrow> real option"

definition replace_first_comma :: "string \<Rightarrow> string" where
  "replace_first_comma s =
     (if CHR '','' \<in> set s
      then takeWhile (\<lambda>c. c \<noteq> CHR '','') s @ CHR ''.'' # tl (dropWhile (\<lambda>c. c \<noteq> CHR '','') s)
      else s)"

definition parsePnlString :: "parse_float \<Rightarrow> string option \<Rightarrow> real" where
  "parsePnlString parseFloat pnlStr =
     (case pnlStr of
        None \<Rightarrow> 0
      | Some str \<Rightarrow>
          if str = [] then 0
          else
            let cleanStr = trim str;
                isAccountingNegative = (prefix ''('' cleanStr \<and> suffix '')'' cleanStr);
                cleanStr = (if isAccountingNegative
                            then CHR ''-'' # take (length cleanStr - 2) (drop 1 cleanStr)
                            else cleanStr);
                cleanStr = filter (\<lambda>c. is_digit c \<or> c \<in> set ''.,-'') cleanStr;
                lastComma = lastIndexOf cleanStr (CHR '','');
                lastPeriod = lastIndexOf cleanStr (CHR ''.'');
                cleanStr = (if lastPeriod < lastComma
                            then replace_first_comma (filter (\<lambda>c. c \<noteq> CHR ''.'') cleanStr)
                            else filter (\<lambda>c. c \<noteq> CHR '','') cleanStr)
            in (case parseFloat cleanStr of None \<Rightarrow> 0 | Some parsed \<Rightarrow> parsed))"

subsection \<open>The HTML report\<close>

text \<open>The parsed document, as far as the parser reads it. A row is the list of its cells
  in document order (\<^verbatim>\<open>querySelectorAll('td, th')\<close>), a table the list of its rows
  (\<^verbatim>\<open>querySelectorAll('tr')\<close>). \<open>captionTable\<close> is the table that encloses the first
  element whose text includes one of the report captions, if there is one: what
  \<^verbatim>\<open>headerElement.closest('table')\<close> yields.\<close>

record html_cell =
  isTh :: bool
  textContent :: string
  colSpan :: nat

type_synonym html_row = "html_cell list"

type_synonym html_table = "html_row list"

record html_doc =
  captionTable :: "html_table option"
  tables :: "html_table list"

datatype import_error =
    NoTradesTable | NoHeaderRow | NoValidTrades
  | NoSheets | NoPositionsSection | NoPositionsHeader

definition headerKeywords :: "string list" where
  "headerKeywords = [''ticket'', ''open time'', ''type'', ''symbol'', ''profit'']"

definition locateTable :: "html_doc \<Rightarrow> html_table option" where
  "locateTable doc =
     (case captionTable doc of
        Some tb \<Rightarrow> Some tb
      | None \<Rightarrow>
          find (\<lambda>t. list_ex (\<lambda>r.
                  let cells = map (\<lambda>c. toLowerCase (trim (textContent c))) r
                  in 3 \<le> length (filter (\<lambda>k. list_ex (\<lambda>c. includes_str c k) cells) headerKeywords)) t)
            (tables doc))"

record column_index_map =
  openTime :: nat
  type_col :: nat
  symbol :: nat
  profit :: nat

definition headerColumns :: "html_row \<Rightarrow> column_index_map option" where
  "headerColumns potentialHeaderCells =
     (let headers = map (\<lambda>c. toLowerCase (trim (textContent c))) potentialHeaderCells
      in case (findIndex (\<lambda>h. includes_str h ''open time'') headers,
               findIndex (\<lambda>h. includes_str h ''type'') headers,
               findIndex (\<lambda>h. includes_str h ''symbol'') headers,
               findIndex (\<lambda>h. includes_str h ''profit'') headers) of
           (Some openTimeIndex, Some typeIndex, Some symbolIndex, Some profitIndex) \<Rightarrow>
             Some \<lparr>openTime = openTimeIndex, type_col = typeIndex, symbol = symbolIndex,
                   profit = profitIndex\<rparr>
         | _ \<Rightarrow> None)"

text \<open>The header loop: the first row from index \<open>i\<close> on that has the four columns.\<close>

fun findHeaderRow :: "html_table \<Rightarrow> nat \<Rightarrow> (nat \<times> column_index_map) option" where
  "findHeaderRow [] i = None"
| "findHeaderRow (r # rows) i =
     (case headerColumns r of
        Some columnIndexMap \<Rightarrow> Some (i, columnIndexMap)
      | None \<Rightarrow> findHeaderRow rows (Suc i))"

text \<open>\<^verbatim>\<open>cells[k]?.textContent\<close>: absent when the row has no such cell.\<close>

definition cellText :: "html_cell list \<Rightarrow> nat \<Rightarrow> string option" where
  "cellText cells k = (if k < length cells then Some (textContent (cells ! k)) else None)"

text \<open>The body of the data loop for the row of index \<open>i\<close>: the trade to push, or none when
  the row is skipped. The identifier of a trade is made from the clock, a random number
  and the row index; it is the argument \<open>newId\<close>.\<close>

definition mt4Row :: "parse_float \<Rightarrow> (nat \<Rightarrow> string) \<Rightarrow> column_index_map \<Rightarrow> nat \<Rightarrow> html_row \<Rightarrow> trade option" where
  "mt4Row parseFloat newId columnIndexMap i row =
     (let cells = filter (\<lambda>c. \<not> isTh c) row in
      if length cells < 4 \<or> 5 < colSpan (cells ! 0) then None
      else
        let type = toLowerCase (trim (or_else (cellText cells (type_col columnIndexMap)) ''''))
        in if type \<noteq> ''buy'' \<and> type \<noteq> ''sell'' then None
           else
             let dateTimeString = trim (or_else (cellText cells (openTime columnIndexMap)) '''');
                 parts = split_space dateTimeString;
                 datePart = (if 0 < length parts then parts ! 0 else []);
                 timePart = (if 1 < length parts then parts ! 1 else [])
             in if datePart = [] \<or> timePart = [] then None
                else
                  let date' = map (\<lambda>c. if c = CHR ''.'' \<or> c = CHR ''/'' then CHR ''-'' else c) datePart;
                      time' = take 5 timePart;
                      pair' = toUpperCase (trim (or_else (cellText cells (symbol columnIndexMap)) ''''));
                      pnl' = parsePnlString parseFloat (cellText cells (profit columnIndexMap))
                  in if pnl' = 0 \<or> pair' = [] then None
                     else Some \<lparr>tid = newId i, date = date', time = time', pair = pair', pnl = pnl',
                                ttype = Some (if type = ''buy'' then Long else Short),
                                tnotes = Some [], photos = Some [], tags = Some [],
                                rating = None\<rparr>)"

text \<open>The data loop over the rows after the header row, of index \<open>i\<close> on.\<close>

fun mt4Rows :: "parse_float \<Rightarrow> (nat \<Rightarrow> string) \<Rightarrow> column_index_map \<Rightarrow> nat \<Rightarrow> html_table \<Rightarrow> trade list" where
  "mt4Rows parseFloat newId columnIndexMap i [] = []"
| "mt4Rows parseFloat newId columnIndexMap i (row # rows) =
     option_list (mt4Row parseFloat newId columnIndexMap i row)
     @ mt4Rows parseFloat newId columnIndexMap (Suc i) rows"

definition parseMt4Trades :: "parse_float \<Rightarrow> (nat \<Rightarrow> string) \<Rightarrow> html_doc \<Rightarrow> import_error + trade list" where
  "parseMt4Trades parseFloat newId doc =
     (case locateTable doc of
        None \<Rightarrow> Inl NoTradesTable
      | Some rows \<Rightarrow>
          (case findHeaderRow rows 0 of
             None \<Rightarrow> Inl NoHeaderRow
           | Some (headerRowIndex, columnIndexMap) \<Rightarrow>
               let importedTrades =
                     mt4Rows parseFloat newId columnIndexMap (headerRowIndex + 1)
                       (drop (headerRowIndex + 1) rows)
               in if importedTrades = [] then Inl NoValidTrades else Inr importedTrades))"

subsection \<open>The spreadsheet report\<close>

text \<open>The workbook as the parser reads it: its sheets in the order of
  \<^verbatim>\<open>SheetNames\<close>, each as the rows of formatted cell texts that
  \<^verbatim>\<open>sheet_to_json\<close> yields with \<^verbatim>\<open>header: 1, raw: false, defval: ''\<close>.
  \<^verbatim>\<open>String(row[k] || '')\<close> is the text of the cell, empty when the row is shorter.\<close>

type_synonym sheet_row = "string list"

definition cellStr :: "sheet_row \<Rightarrow> nat \<Rightarrow> string" where
  "cellStr row k = (if k < length row then row ! k else [])"

text \<open>Reading a date with \<^verbatim>\<open>new Date\<close> and printing it with \<^verbatim>\<open>format\<close> of
  date-fns is the argument \<open>readDate\<close>: the date as \<^verbatim>\<open>yyyy-MM-dd\<close> and the time as
  \<^verbatim>\<open>HH:mm\<close>, or \<open>None\<close> for an invalid date.\<close>

type_synonym read_date = "string \<Rightarrow> (string \<times> string) option"

text \<open>\<^verbatim>\<open>rows.findIndex((r, i) => i > positionsStartIndex && ...)\<close>.\<close>

definition findIndexAfter :: "nat \<Rightarrow> ('a \<Rightarrow> bool) \<Rightarrow> 'a list \<Rightarrow> nat option" where
  "findIndexAfter start P xs =
     map_option (\<lambda>k. start + 1 + k) (findIndex P (drop (start + 1) xs))"

definition requiredKeywords :: "string list list" where
  "requiredKeywords = [[''time'', ''open time''], [''symbol'', ''item''], [''type''],
                       [''profit'', ''p/l'', ''p&l'']]"

definition isPositionsHeader :: "string list \<Rightarrow> bool" where
  "isPositionsHeader potentialHeader =
     list_all (\<lambda>aliases. list_ex (\<lambda>alias. alias \<in> set potentialHeader) aliases) requiredKeywords"

text \<open>The header loop \<^verbatim>\<open>for (let i = positionsStartIndex; i < positionsEndIndex; i++)\<close>
  over the rows of that range.\<close>

fun findPositionsHeader :: "sheet_row list \<Rightarrow> nat \<Rightarrow> (nat \<times> string list) option" where
  "findPositionsHeader [] i = None"
| "findPositionsHeader (r # rows) i =
     (let potentialHeader = map (\<lambda>cell. toLowerCase (trim cell)) r
      in if isPositionsHeader potentialHeader then Some (i, potentialHeader)
         else findPositionsHeader rows (Suc i))"

definition headerIndex :: "string list \<Rightarrow> string list \<Rightarrow> nat option" where
  "headerIndex header aliases = findIndex (\<lambda>h. h \<in> set aliases) header"

text \<open>\<^verbatim>\<open>row[k]\<close> for a column index that may be \<open>-1\<close>.\<close>

definition cellAt :: "sheet_row \<Rightarrow> nat option \<Rightarrow> string" where
  "cellAt row k = (case k of None \<Rightarrow> [] | Some j \<Rightarrow> cellStr row j)"

definition mt5Row :: "parse_float \<Rightarrow> read_date \<Rightarrow> (nat \<Rightarrow> string) \<Rightarrow> string list \<Rightarrow> nat \<Rightarrow> sheet_row \<Rightarrow> trade option" where
  "mt5Row parseFloat readDate newId header index row =
     (let timeColIndex = headerIndex header [''time'', ''open time''];
          symbolColIndex = headerIndex header [''symbol'', ''item''];
          typeColIndex = headerIndex header [''type''];
          profitColIndex = headerIndex header [''profit'', ''p/l'', ''p&l''];
          commentColIndex = headerIndex header [''comment'']
      in if 2 * length row < length header \<or> list_all (\<lambda>cell. cell = []) row then None
         else
           let type = toLowerCase (trim (cellAt row typeColIndex));
               comment = (if commentColIndex \<noteq> None
                          then toLowerCase (trim (cellAt row commentColIndex)) else [])
           in if list_ex (\<lambda>word. includes_str type word \<or> includes_str comment word)
                   [''balance'', ''deposit'', ''withdrawal'']
                 \<or> (type \<noteq> ''buy'' \<and> type \<noteq> ''sell'')
              then None
              else
                (case readDate (map (\<lambda>c. if c = CHR ''.'' then CHR ''/'' else c)
                                  (cellAt row timeColIndex)) of
                   None \<Rightarrow> None
                 | Some (date', time') \<Rightarrow>
                     let pair' = toUpperCase (trim (cellAt row symbolColIndex));
                         profitCell = cellAt row profitColIndex;
                         pnl' = parsePnlString parseFloat
                                  (Some (if profitCell = [] then ''0'' else profitCell))
                     in if pnl' = 0 \<or> pair' = [] then None
                        else Some \<lparr>tid = newId index, date = date', time = time', pair = pair',
                                   pnl = pnl',
                                   ttype = Some (if type = ''buy'' then Long else Short),
                                   tnotes = Some [], photos = Some [], tags = Some [],
                                   rating = None\<rparr>))"

fun mt5Rows :: "parse_float \<Rightarrow> read_date \<Rightarrow> (nat \<Rightarrow> string) \<Rightarrow> string list \<Rightarrow> nat \<Rightarrow> sheet_row list \<Rightarrow> trade list" where
  "mt5Rows parseFloat readDate newId header index [] = []"
| "mt5Rows parseFloat readDate newId header index (row # dataRows) =
     option_list (mt5Row parseFloat readDate newId header index row)
     @ mt5Rows parseFloat readDate newId header (Suc index) dataRows"

definition parseMt5Trades ::
    "parse_float \<Rightarrow> read_date \<Rightarrow> (nat \<Rightarrow> string) \<Rightarrow> sheet_row list list \<Rightarrow> import_error + trade list" where
  "parseMt5Trades parseFloat readDate newId workbook =
     (case workbook of
        [] \<Rightarrow> Inl NoSheets
      | rows # otherSheets \<Rightarrow>
          (case findIndex (\<lambda>r. includes_str (toLowerCase (trim (cellStr r 0))) ''positions'') rows of
             None \<Rightarrow> Inl NoPositionsSection
           | Some positionsStartIndex \<Rightarrow>
               let positionsEndIndex =
                     or_else (findIndexAfter positionsStartIndex
                                (\<lambda>r. list_ex (\<lambda>h. includes_str (toLowerCase (trim (cellStr r 0))) h)
                                        [''orders'', ''deals'', ''summary''])
                                rows)
                             (length rows)
               in (case findPositionsHeader
                          (take (positionsEndIndex - positionsStartIndex) (drop positionsStartIndex rows))
                          positionsStartIndex of
                     None \<Rightarrow> Inl NoPositionsHeader
                   | Some (headerRowIndex, header) \<Rightarrow>
                       let dataRows = take (positionsEndIndex - (headerRowIndex + 1))
                                        (drop (headerRowIndex + 1) rows);
                           importedTrades = mt5Rows parseFloat readDate newId header 0 dataRows
                       in if importedTrades = [] then Inl NoValidTrades
                          else Inr importedTrades)))"

section \<open>The specification's notions\<close>

subsection \<open>Consistency score\<close>

text \<open>The score as the specification words it: the population standard deviation of the
  P&L over the mean of its absolute values, mapped through \<open>round (10 * e ^ (- 0.6 * CV))\<close>
  and clamped. The quotient has no value when the mean absolute P&L is zero.\<close>

definition pnl_mean :: "real list \<Rightarrow> real" where
  "pnl_mean xs = sum_list xs / real (length xs)"

definition population_stddev :: "real list \<Rightarrow> real" where
  "population_stddev xs = sqrt (pnl_mean (map (\<lambda>x. (x - pnl_mean xs) ^ 2) xs))"

definition mean_abs :: "real list \<Rightarrow> real" where
  "mean_abs xs = pnl_mean (map abs xs)"



subsection \<open>Streak\<close>

text \<open>The streak as the specification words it: walk back from the most recent trade while
  the sign of the P&L is that of the most recent trade (a zero P&L has no sign and matches
  nothing); report the run when it has at least three trades.\<close>

definition same_sign :: "real \<Rightarrow> real \<Rightarrow> bool" where
  "same_sign a b = ((0 < a \<and> 0 < b) \<or> (a < 0 \<and> b < 0))"

definition trailing_run :: "trade list \<Rightarrow> trade list" where
  "trailing_run ts =
     (case rev ts of [] \<Rightarrow> [] | l # older \<Rightarrow> takeWhile (\<lambda>t. same_sign (pnl l) (pnl t)) (l # older))"

definition spec_streak :: "trade list \<Rightarrow> streak option" where
  "spec_streak ts =
     (if length ts < 3 \<or> length (trailing_run ts) < 3 then None
      else Some \<lparr>stype = (if 0 < pnl (last ts) then Win else Loss),
                 slength = length (trailing_run ts)\<rparr>)"

subsection \<open>Trend\<close>

text \<open>The degradation test of the trend detector, for a given recent window: the lifetime
  win rate exceeds that of the window by more than 15 points, or the lifetime profit factor
  is finite and that of the window is below 0.7 times it.\<close>

definition degraded_against :: "trade list \<Rightarrow> trade list \<Rightarrow> bool" where
  "degraded_against recent trades =
     (15 < winRate_of trades - winRate_of recent \<or>
      (isFinite (profitFactor_of trades) \<and>
       num_less (profitFactor_of recent) (num_times (profitFactor_of trades) 0.7)))"

text \<open>The \<open>n\<close> most recent trades by the chronological key, newest first.\<close>

definition most_recent :: "nat \<Rightarrow> trade list \<Rightarrow> trade list" where
  "most_recent n trades = take n (rev (sort_key dateTimeKey trades))"

definition spec_trend_fires :: "trade list \<Rightarrow> bool" where
  "spec_trend_fires trades = (40 \<le> length trades \<and> degraded_against (most_recent 20 trades) trades)"

definition has_trend_insight :: "actionable_insight list \<Rightarrow> bool" where
  "has_trend_insight insights = list_ex (\<lambda>i. topic i = Some Performance) insights"

subsection \<open>Tag attribution\<close>

text \<open>The tag attribution as the specification words it. A tag is a category together
  with a value (\<^verbatim>\<open>strategy:Breakout\<close> is the value \<^verbatim>\<open>Breakout\<close> of the category
  \<^verbatim>\<open>strategy\<close>). A trade carries the tag when the value is among the values of that
  category in its tags; the empty string is no value. The statistics of a tag are over the
  trades that carry it: their number, the sum of their P&L and the share of winners among
  them. A tag is significant when three or more trades carry it. The top lists are the
  significant tags of positive (negative) total, sorted by descending (ascending) total and
  cut to \<open>n\<close> entries. Tags are listed in the order in which they first appear in the
  journal, which decides between tags of equal total.\<close>

type_synonym spec_tag = "string \<times> string"

definition category_values :: "tag_value \<Rightarrow> string list" where
  "category_values value = (case value of Multi vs \<Rightarrow> vs | Single v \<Rightarrow> [v])"

definition tags_of :: "trade \<Rightarrow> spec_tag list" where
  "tags_of trade =
     (case tags trade of
        None \<Rightarrow> []
      | Some tgs \<Rightarrow>
          concat (map (\<lambda>(category, value).
                    map (Pair category) (filter (\<lambda>v. v \<noteq> []) (category_values value))) tgs))"

definition carries :: "trade \<Rightarrow> spec_tag \<Rightarrow> bool" where
  "carries trade tg = (tg \<in> set (tags_of trade))"

definition trades_with :: "spec_tag \<Rightarrow> trade list \<Rightarrow> trade list" where
  "trades_with tg trades = filter (\<lambda>trade. carries trade tg) trades"

text \<open>The statistics of a tag, shown under the name \<open>name tg\<close>.\<close>

definition spec_tag_stat :: "(spec_tag \<Rightarrow> string) \<Rightarrow> trade list \<Rightarrow> spec_tag \<Rightarrow> tag_stat" where
  "spec_tag_stat name trades tg =
     (let carrying = trades_with tg trades;
          winCount = length (filter (\<lambda>trade. 0 < pnl trade) carrying)
      in \<lparr>tag = name tg,
          totalPnl = sum_list (map pnl carrying),
          tradeCount = length carrying,
          winRate = (if length carrying = 0 then 0
                     else real winCount / real (length carrying) * 100)\<rparr>)"

text \<open>The canonical key of a tag, category-qualified. The card shows the bare value
  (\<^const>\<open>snd\<close>).\<close>

definition canonical_key :: "spec_tag \<Rightarrow> string" where
  "canonical_key tg = fst tg @ '':'' @ snd tg"

fun first_seen :: "'a list \<Rightarrow> 'a list \<Rightarrow> 'a list" where
  "first_seen seen [] = seen"
| "first_seen seen (x # xs) = first_seen (if x \<in> set seen then seen else seen @ [x]) xs"

definition tags_in_order :: "trade list \<Rightarrow> spec_tag list" where
  "tags_in_order trades = first_seen [] (concat (map tags_of trades))"

definition significant_tags :: "(spec_tag \<Rightarrow> string) \<Rightarrow> trade list \<Rightarrow> tag_stat list" where
  "significant_tags name trades =
     filter (\<lambda>s. 3 \<le> tradeCount s) (map (spec_tag_stat name trades) (tags_in_order trades))"

definition top_profitable :: "nat \<Rightarrow> tag_stat list \<Rightarrow> tag_stat list" where
  "top_profitable n stats =
     take n (sort_key (\<lambda>s. - totalPnl s) (filter (\<lambda>s. 0 < totalPnl s) stats))"

definition top_unprofitable :: "nat \<Rightarrow> tag_stat list \<Rightarrow> tag_stat list" where
  "top_unprofitable n stats =
     take n (sort_key totalPnl (filter (\<lambda>s. totalPnl s < 0) stats))"

text \<open>An entry of the card read as a tag statistic.\<close>

definition card_view :: "ui_tag_stat \<Rightarrow> tag_stat" where
  "card_view s = \<lparr>tag = tag_u s, totalPnl = totalPnl_ut s, tradeCount = tradeCount_ut s,
                  winRate = winRate_ut s\<rparr>"

text \<open>The tags of a trade are well formed when no category occurs twice (they are the
  properties of one object), no category name contains a colon (none of the seven of
  \<^verbatim>\<open>TradeTags\<close> does), no category lists a value twice and no multi-valued category
  lists the empty string. The values of a journal are distinct when no value occurs under
  two categories.\<close>

definition well_tagged :: "trade \<Rightarrow> bool" where
  "well_tagged trade =
     (case tags trade of
        None \<Rightarrow> True
      | Some tgs \<Rightarrow>
          distinct (map fst tgs) \<and>
          list_all (\<lambda>(category, value).
                      CHR '':'' \<notin> set category \<and> distinct (category_values value) \<and>
                      (case value of Multi vs \<Rightarrow> [] \<notin> set vs | Single v \<Rightarrow> True)) tgs)"

definition distinct_values :: "trade list \<Rightarrow> bool" where
  "distinct_values trades = distinct (map snd (tags_in_order trades))"

subsection \<open>Golden hour\<close>

text \<open>A trade has a time value when its time is not empty.\<close>

definition has_time :: "trade \<Rightarrow> bool" where
  "has_time tr = (time tr \<noteq> [])"

subsection \<open>Import\<close>

text \<open>The three tests of a data row that the specification names: the type cell reads
  buy or sell (trimmed, in any case), the P&L is not zero, the symbol is not empty. The
  header test: each of the four column names occurs in some cell of the row. The invariant
  of an imported trade.\<close>

definition tdCells :: "html_row \<Rightarrow> html_cell list" where
  "tdCells row = filter (\<lambda>c. \<not> isTh c) row"

definition rowType :: "column_index_map \<Rightarrow> html_row \<Rightarrow> string" where
  "rowType cols row = toLowerCase (trim (or_else (cellText (tdCells row) (type_col cols)) ''''))"

definition rowSymbol :: "column_index_map \<Rightarrow> html_row \<Rightarrow> string" where
  "rowSymbol cols row = toUpperCase (trim (or_else (cellText (tdCells row) (symbol cols)) ''''))"

definition rowPnl :: "parse_float \<Rightarrow> column_index_map \<Rightarrow> html_row \<Rightarrow> real" where
  "rowPnl parseFloat cols row = parsePnlString parseFloat (cellText (tdCells row) (profit cols))"

definition qualifies :: "parse_float \<Rightarrow> column_index_map \<Rightarrow> html_row \<Rightarrow> bool" where
  "qualifies parseFloat cols row =
     ((rowType cols row = ''buy'' \<or> rowType cols row = ''sell'') \<and>
      rowPnl parseFloat cols row \<noteq> 0 \<and> rowSymbol cols row \<noteq> [])"

definition has_header :: "string \<Rightarrow> html_row \<Rightarrow> bool" where
  "has_header name row = list_ex (\<lambda>c. includes_str (toLowerCase (trim (textContent c))) name) row"

definition is_header_row :: "html_row \<Rightarrow> bool" where
  "is_header_row row =
     (has_header ''open time'' row \<and> has_header ''type'' row \<and> has_header ''symbol'' row \<and>
      has_header ''profit'' row)"

definition imported_ok :: "trade \<Rightarrow> bool" where
  "imported_ok tr =
     (pnl tr \<noteq> 0 \<and> pair tr \<noteq> [] \<and> toUpperCase (pair tr) = pair tr \<and>
      (ttype tr = Some Long \<or> ttype tr = Some Short) \<and> tags tr = Some [])"

definition sheetType :: "string list \<Rightarrow> sheet_row \<Rightarrow> string" where
  "sheetType header row = toLowerCase (trim (cellAt row (headerIndex header [''type''])))"

section \<open>The two tag loops as lists of occurrences\<close>

text \<open>An intermediate form of the loops of the report and of the card, used to reason
  about them: every key that the code derives from a trade is one occurrence of that key
  with the P&L of the trade, and the entry that the \<^verbatim>\<open>Map\<close> holds for a key is the
  tally of its occurrences. \<open>keys\<close> is the key extraction of the code,
  \<^const>\<open>allTradeTags\<close> or \<^const>\<open>flatTagValues\<close>.\<close>

definition tag_occurrences :: "(trade_tags \<Rightarrow> string list) \<Rightarrow> trade list \<Rightarrow> (string \<times> real) list" where
  "tag_occurrences keys trades =
     concat (map (\<lambda>trade. case tags trade of
                             None \<Rightarrow> []
                           | Some tgs \<Rightarrow> map (\<lambda>k. (k, pnl trade)) (keys tgs)) trades)"

definition pnls_of :: "string \<Rightarrow> (string \<times> real) list \<Rightarrow> real list" where
  "pnls_of k occ = map snd (filter (\<lambda>e. fst e = k) occ)"

definition tally :: "(string \<times> real) list \<Rightarrow> string \<Rightarrow> tag_stat" where
  "tally occ k =
     \<lparr>tag = k,
      totalPnl = sum_list (pnls_of k occ),
      tradeCount = length (pnls_of k occ),
      winRate = (if pnls_of k occ = [] then 0
                 else real (length (filter (\<lambda>p. 0 < p) (pnls_of k occ)))
                      / real (length (pnls_of k occ)) * 100)\<rparr>"

definition significant_stats :: "(string \<times> real) list \<Rightarrow> tag_stat list" where
  "significant_stats occ =
     filter (\<lambda>s. 3 \<le> tradeCount s) (map (tally occ) (first_seen [] (map fst occ)))"

text \<open>What one occurrence of P&L \<open>p\<close> does to the entry of its key, in the report
  (\<^const>\<open>tagStatsStep\<close>) and in the card (\<^const>\<open>statsMapStep\<close>).\<close>

definition bump_report :: "real \<Rightarrow> tag_stats \<Rightarrow> tag_stats" where
  "bump_report p stats =
     (let stats1 = stats\<lparr>pnl_t := pnl_t stats + p, count_t := count_t stats + 1\<rparr>
      in if 0 < p then stats1\<lparr>wins_t := wins_t stats1 + 1\<rparr>
         else if p < 0 then stats1\<lparr>losses_t := losses_t stats1 + 1\<rparr>
         else stats1)"

definition bump_card :: "real \<Rightarrow> ui_stat \<Rightarrow> ui_stat" where
  "bump_card p stat =
     (let stat1 = stat\<lparr>totalPnl_u := totalPnl_u stat + p, tradeCount_u := tradeCount_u stat + 1\<rparr>
      in if 0 < p then stat1\<lparr>winCount_u := winCount_u stat1 + 1\<rparr> else stat1)"

section \<open>Sample inputs\<close>

definition flat_trade :: "real \<Rightarrow> trade" where
  "flat_trade p = \<lparr>tid = ''t'', date = ''2024-01-02'', time = ''10:00'', pair = ''EURUSD'',
     pnl = p, ttype = None, tnotes = None, photos = None, tags = None, rating = None\<rparr>"

definition timed_trade :: "string \<Rightarrow> string \<Rightarrow> string \<Rightarrow> real \<Rightarrow> trade" where
  "timed_trade i d tm p = \<lparr>tid = i, date = d, time = tm, pair = ''EURUSD'',
     pnl = p, ttype = None, tnotes = None, photos = None, tags = None, rating = None\<rparr>"

definition plain_t :: tfunction where
  "plain_t key params = key"

definition plain_toFixed :: to_fixed where
  "plain_toFixed digits x = ''0''"

definition plain_currency :: "real \<Rightarrow> string" where
  "plain_currency x = ''$''"

definition forged_enrichment :: "trade list \<Rightarrow> string + partial_result" where
  "forged_enrichment trades =
     Inr \<lparr>overallSummary_p = Some ''All good.'', strengths_p = None, weaknesses_p = None,
          actionableInsights_p = None, keyObservations_p = None,
          performanceGrade_p = Some \<lparr>grade = GradeA, summary = ''Flawless''\<rparr>,
          keyMetrics_p = None, tagPerformance_p = Some None\<rparr>"

definition breakout :: "real \<Rightarrow> trade" where
  "breakout p = \<lparr>tid = ''b'', date = ''2024-04-02'', time = ''09:45'', pair = ''GBPUSD'',
     pnl = p, ttype = Some Long, tnotes = None, photos = None,
     tags = Some [(''strategy'', Multi [''Breakout''])], rating = None\<rparr>"

definition untimed_wins :: "trade list" where
  "untimed_wins =
     [timed_trade ''u1'' ''2024-03-01'' '''' 100, timed_trade ''u2'' ''2024-03-04'' '''' 100,
      timed_trade ''u3'' ''2024-03-05'' '''' 100, timed_trade ''u4'' ''2024-03-06'' '''' 100,
      timed_trade ''u5'' ''2024-03-07'' '''' 100]"

definition morning_wins :: "trade list" where
  "morning_wins =
     [timed_trade ''m1'' ''2024-03-01'' ''10:15'' 10, timed_trade ''m2'' ''2024-03-04'' ''10:20'' 10,
      timed_trade ''m3'' ''2024-03-05'' ''10:05'' 10, timed_trade ''m4'' ''2024-03-06'' ''10:40'' 10,
      timed_trade ''m5'' ''2024-03-07'' ''10:59'' 10]"

text \<open>A decimal reader to run the parsers with: an optional minus sign, digits and an
  optional fraction, which is what \<^verbatim>\<open>parseFloat\<close> reads of the cleaned strings.
  \<open>sample_readDate\<close> reads \<^verbatim>\<open>yyyy/MM/dd HH:mm:ss\<close>.\<close>

definition digits_value :: "string \<Rightarrow> nat" where
  "digits_value ds = foldl (\<lambda>n c. 10 * n + (of_char c - 48)) 0 ds"

definition parseFloat_decimal :: parse_float where
  "parseFloat_decimal s =
     (let negative = prefix ''-'' s;
          body = (if negative then tl s else s);
          whole = takeWhile is_digit body;
          rest = dropWhile is_digit body;
          fraction = (if prefix ''.'' rest then takeWhile is_digit (tl rest) else [])
      in if whole = [] \<and> fraction = [] then None
         else Some ((if negative then - 1 else 1)
                    * (real (digits_value whole)
                       + real (digits_value fraction) / 10 ^ length fraction)))"

definition td :: "string \<Rightarrow> html_cell" where
  "td s = \<lparr>isTh = False, textContent = s, colSpan = 1\<rparr>"

definition row_id :: "nat \<Rightarrow> string" where
  "row_id i = ''trade_'' @ string_of_nat i"

definition statement_rows :: html_table where
  "statement_rows =
     [[td ''Ticket'', td ''Open Time'', td ''Type'', td ''Size'', td ''Symbol'', td ''Profit''],
      [td ''1001'', td ''2024.01.15 10:30:00'', td ''buy'', td ''0.10'', td ''eurusd'', td ''12.50''],
      [td ''1002'', td ''2024.01.16 11:00:00'', td ''balance'', td [], td [], td ''1 000.00''],
      [td ''1003'', td ''2024.01.17 09:05:00'', td '' Sell '', td ''0.20'', td ''gbpusd'', td ''(7,25)'']]"

definition statement :: html_doc where
  "statement = \<lparr>captionTable = None, tables = [statement_rows]\<rparr>"

definition sample_readDate :: read_date where
  "sample_readDate s =
     (case split_space s of
        [d, tm] \<Rightarrow>
          if length d = 10 \<and> 5 \<le> length tm
          then Some (map (\<lambda>c. if c = CHR ''/'' then CHR ''-'' else c) d, take 5 tm)
          else None
      | _ \<Rightarrow> None)"

definition no_profit_rows :: html_table where
  "no_profit_rows =
     [[td ''Ticket'', td ''Open Time'', td ''Type'', td ''Size'', td ''Symbol'', td ''Commission''],
      [td ''1001'', td ''2024.01.15 10:30:00'', td ''buy'', td ''0.10'', td ''eurusd'', td ''0.70'']]"

definition no_profit_statement :: html_doc where
  "no_profit_statement = \<lparr>captionTable = None, tables = [no_profit_rows]\<rparr>"

definition deposit_rows :: html_table where
  "deposit_rows =
     [[td ''Ticket'', td ''Open Time'', td ''Type'', td ''Size'', td ''Symbol'', td ''Profit''],
      [td ''1000'', td ''2024.01.02 08:00:00'', td ''balance'', td [], td [], td ''5 000.00''],
      [td ''1004'', td ''2024.01.18 09:00:00'', td ''buy'', td ''0.10'', td ''eurusd'', td ''0.00'']]"

definition deposit_statement :: html_doc where
  "deposit_statement = \<lparr>captionTable = Some deposit_rows, tables = [deposit_rows]\<rparr>"

definition positions_sheet :: "sheet_row list" where
  "positions_sheet =
     [[''Trade History Report''],
      [''Positions''],
      [''Time'', ''Position'', ''Symbol'', ''Type'', ''Volume'', ''Price'', ''Profit'', ''Comment''],
      [''2024.02.01 09:15:00'', ''501'', ''xauusd'', ''buy'', ''0.10'', ''2030.5'', ''35.40'', []],
      [''2024.02.01 12:00:00'', ''502'', [], ''balance'', [], [], ''500.00'', ''deposit''],
      [''2024.02.02 14:45:00'', ''503'', ''usdjpy'', ''sell'', ''0.50'', ''148.2'', ''-12.00'', []],
      [''Orders'']]"

definition statement_trades :: "trade list" where
  "statement_trades =
     [\<lparr>tid = ''trade_1'', date = ''2024-01-15'', time = ''10:30'', pair = ''EURUSD'', pnl = 12.5,
       ttype = Some Long, tnotes = Some [], photos = Some [], tags = Some [], rating = None\<rparr>,
      \<lparr>tid = ''trade_3'', date = ''2024-01-17'', time = ''09:05'', pair = ''GBPUSD'', pnl = - 7.25,
       ttype = Some Short, tnotes = Some [], photos = Some [], tags = Some [], rating = None\<rparr>]"

definition positions_trades :: "trade list" where
  "positions_trades =
     [\<lparr>tid = ''trade_0'', date = ''2024-02-01'', time = ''09:15'', pair = ''XAUUSD'', pnl = 35.4,
       ttype = Some Long, tnotes = Some [], photos = Some [], tags = Some [], rating = None\<rparr>,
      \<lparr>tid = ''trade_2'', date = ''2024-02-02'', time = ''14:45'', pair = ''USDJPY'', pnl = - 12,
       ttype = Some Short, tnotes = Some [], photos = Some [], tags = Some [], rating = None\<rparr>]"

definition streak_day :: "trade list" where
  "streak_day =
     [timed_trade ''w'' ''2024-03-01'' ''09:30'' 40,
      timed_trade ''x'' ''2024-03-01'' ''11:00'' (- 10),
      timed_trade ''y'' ''2024-03-04'' '''' (- 25),
      timed_trade ''z'' ''2024-03-04'' ''08:15'' (- 5)]"

definition same_minute_win_first :: "trade list" where
  "same_minute_win_first =
     [timed_trade ''d'' ''2024-03-01'' ''09:30'' 1,
      timed_trade ''a'' ''2024-03-01'' ''09:30'' (- 1),
      timed_trade ''b'' ''2024-03-01'' ''09:30'' (- 1),
      timed_trade ''c'' ''2024-03-01'' ''09:30'' (- 1)]"

definition same_minute_win_last :: "trade list" where
  "same_minute_win_last =
     [timed_trade ''a'' ''2024-03-01'' ''09:30'' (- 1),
      timed_trade ''b'' ''2024-03-01'' ''09:30'' (- 1),
      timed_trade ''c'' ''2024-03-01'' ''09:30'' (- 1),
      timed_trade ''d'' ''2024-03-01'' ''09:30'' 1]"

text \<open>A P&L close to the largest double, \<^verbatim>\<open>1e308\<close>: twice this value is beyond
  \<open>2 ^ 1024\<close>.\<close>

definition near_max :: real where
  "near_max = 10 ^ 308"

text \<open>A journal of forty trades, newest first as the store keeps it: on the last day a win
  at 16:00, seven wins and then thirteen losses between 15:59 and 15:40, and before that
  thirteen wins and six losses on nineteen earlier days. \<open>cleared_time_journal\<close> is the
  store after the time of the 16:00 trade has been cleared in the edit form.\<close>

definition busy_day_journal :: "trade list" where
  "busy_day_journal =
     timed_trade ''a'' ''2024-06-28'' ''16:00'' 30
     # map (\<lambda>i. timed_trade (''b'' @ string_of_nat i) ''2024-06-28''
                 (''15:'' @ string_of_nat (59 - i)) 30) [0..<7]
     @ map (\<lambda>i. timed_trade (''c'' @ string_of_nat i) ''2024-06-28''
                 (''15:'' @ string_of_nat (52 - i)) (- 10)) [0..<13]
     @ map (\<lambda>i. timed_trade (''d'' @ string_of_nat i) (''2024-05-'' @ string_of_nat (30 - i))
                 ''10:00'' 10) [0..<13]
     @ map (\<lambda>i. timed_trade (''e'' @ string_of_nat i) (''2024-05-'' @ string_of_nat (17 - i))
                 ''10:00'' (- 10)) [0..<6]"

definition cleared_time_journal :: "trade list" where
  "cleared_time_journal = updateTrade ''a'' (no_updates\<lparr>time_up := Some []\<rparr>) busy_day_journal"

definition london :: "real \<Rightarrow> trade" where
  "london p = \<lparr>tid = ''n'', date = ''2024-04-03'', time = ''08:30'', pair = ''GBPUSD'',
     pnl = p, ttype = Some Long, tnotes = None, photos = None,
     tags = Some [(''session'', Multi [''London'']), (''custom'', Multi [''London''])],
     rating = None\<rparr>"

definition breakout_twice :: "real \<Rightarrow> trade" where
  "breakout_twice p = \<lparr>tid = ''r'', date = ''2024-04-04'', time = ''09:45'', pair = ''GBPUSD'',
     pnl = p, ttype = Some Long, tnotes = None, photos = None,
     tags = Some [(''strategy'', Multi [''Breakout'', ''Breakout''])], rating = None\<rparr>"

section \<open>Verified properties\<close>

subsection \<open>Consistency score\<close>

lemma foldl_plus_sum_list: "foldl (\<lambda>a b. a + b) (a::real) xs = a + sum_list xs"
  by (induction xs arbitrary: a) simp_all

lemma foldl_abs_sum_list: "foldl (\<lambda>a b. a + \<bar>b\<bar>) (a::real) xs = a + sum_list (map abs xs)"
  by (induction xs arbitrary: a) simp_all

lemma calculateConsistency_few: "length trades < 5 \<Longrightarrow> calculateConsistency trades = 0"
  by (simp add: calculateConsistency_def)

lemma calculateConsistency_guard:
  "5 \<le> length trades \<Longrightarrow> mean_abs (map pnl trades) = 0 \<Longrightarrow> calculateConsistency trades = 1"
  by (simp add: calculateConsistency_def Let_def foldl_abs_sum_list mean_abs_def pnl_mean_def)

lemma calculateConsistency_formula:
  assumes "5 \<le> length trades" and "mean_abs (map pnl trades) \<noteq> 0"
  shows "calculateConsistency trades =
     max 1 (min 10 (round (10 * exp (- 0.6 *
       (population_stddev (map pnl trades) / mean_abs (map pnl trades))))))"
proof -
  let ?p = "map pnl trades"
  have m: "foldl (\<lambda>a b. a + b) 0 ?p / real (length ?p) = pnl_mean ?p"
    by (simp add: pnl_mean_def foldl_plus_sum_list)
  have sd: "sqrt (foldl (\<lambda>a b. a + b) 0 (map (\<lambda>x. (x - pnl_mean ?p) ^ 2) ?p)
                   / real (length ?p)) = population_stddev ?p"
    by (simp add: population_stddev_def pnl_mean_def foldl_plus_sum_list)
  have ab: "foldl (\<lambda>a b. a + \<bar>b\<bar>) 0 ?p / real (length ?p) = mean_abs ?p"
    by (simp add: mean_abs_def pnl_mean_def foldl_abs_sum_list)
  have "\<not> length trades < 5" using assms(1) by simp
  then show ?thesis
    unfolding calculateConsistency_def Let_def m sd ab using assms(2) by (simp only: if_False)
qed









text \<open>The score in double arithmetic. It is \<^verbatim>\<open>NaN\<close>, 0 or a value from 1 to 10 on
  every list; where the P&L leave room for the sums and squares below \<open>2 ^ 1024\<close> it is
  the score computed on the reals.\<close>

lemma near_max_facts:
  "0 < near_max" "near_max < overflow_bound" "overflow_bound \<le> near_max + near_max"
  by (simp_all add: overflow_bound_def near_max_def)

lemma to_double_finite: "\<bar>r\<bar> < overflow_bound \<Longrightarrow> to_double r = Finite r"
  unfolding to_double_def by (simp add: abs_less_iff)

lemma foldl_d_add_finite:
  "\<bar>a\<bar> + sum_list (map abs xs) < overflow_bound \<Longrightarrow>
   foldl (\<lambda>a b. d_add a b) (Finite a) (map Finite xs) = Finite (a + sum_list xs)"
proof (induction xs arbitrary: a)
  case Nil
  then show ?case by simp
next
  case (Cons x xs)
  have nn: "0 \<le> sum_list (map abs xs)" by (rule sum_list_nonneg) auto
  have "\<bar>a + x\<bar> < overflow_bound" using Cons.prems nn by simp
  then have step: "d_add (Finite a) (Finite x) = Finite (a + x)" by (simp add: to_double_finite)
  have "\<bar>a + x\<bar> + sum_list (map abs xs) < overflow_bound" using Cons.prems by simp
  from Cons.IH [OF this] show ?case by (simp only: list.map foldl_Cons step sum_list.Cons add.assoc)
qed

lemma foldl_d_abs_finite:
  "\<bar>a\<bar> + sum_list (map abs xs) < overflow_bound \<Longrightarrow>
   foldl (\<lambda>a b. d_add a (d_abs b)) (Finite a) (map Finite xs)
     = Finite (a + sum_list (map abs xs))"
proof (induction xs arbitrary: a)
  case Nil
  then show ?case by simp
next
  case (Cons x xs)
  have nn: "0 \<le> sum_list (map abs xs)" by (rule sum_list_nonneg) auto
  have "\<bar>a + \<bar>x\<bar>\<bar> < overflow_bound" using Cons.prems nn by simp
  then have step: "d_add (Finite a) (d_abs (Finite x)) = Finite (a + \<bar>x\<bar>)"
    by (simp add: to_double_finite)
  have "\<bar>a + \<bar>x\<bar>\<bar> + sum_list (map abs xs) < overflow_bound" using Cons.prems by simp
  from Cons.IH [OF this] show ?case by (simp only: list.map foldl_Cons step sum_list.Cons add.assoc)
qed

lemma sum_list_bounded:
  "(\<And>x. x \<in> set xs \<Longrightarrow> f x \<le> (c::real)) \<Longrightarrow> sum_list (map f xs) \<le> real (length xs) * c"
  by (induction xs) (auto simp: algebra_simps add_mono)

lemma clamp_cases:
  "d_max (Finite 1) (d_min (Finite 10) z) = NaN \<or>
   (\<exists>s. d_max (Finite 1) (d_min (Finite 10) z) = Finite s \<and> 1 \<le> s \<and> s \<le> 10)"
  by (cases z) auto

lemma calculateConsistency_double_cases:
  "calculateConsistency_double trades = NaN \<or>
   (\<exists>s. calculateConsistency_double trades = Finite s \<and> (s = 0 \<or> 1 \<le> s \<and> s \<le> 10))"
  unfolding calculateConsistency_double_def Let_def
  using clamp_cases by (auto simp del: d_max.simps d_min.simps)

lemma overflow_bound_large: "40 < overflow_bound"
  by (simp add: overflow_bound_def)

lemma round_small: "0 \<le> x \<Longrightarrow> x < 1 / 2 \<Longrightarrow> round (x::real) = 0"
  unfolding round_def by (simp add: floor_eq_iff)

lemma exp_decay: "19 < y \<Longrightarrow> 10 * exp (- y) < 1 / (2::real)"
proof -
  assume y: "19 < y"
  have "1 + y \<le> exp y" by (rule exp_ge_add_one_self)
  with y have "20 < exp y" by linarith
  then have "exp (- y) < 1 / 20" by (simp add: exp_minus field_simps)
  then show ?thesis by simp
qed

lemma mean_le_total:
  assumes "0 \<le> a" and "1 \<le> n"
  shows "a / n \<le> (a::real)"
proof -
  have "1 * a \<le> n * a" using assms by (intro mult_right_mono) simp_all
  then show ?thesis using assms(2) by (simp add: field_simps)
qed

lemma calculateConsistency_double_statistics:
  assumes five: "5 \<le> length trades"
    and bound: "list_all (\<lambda>t. \<bar>pnl t\<bar> \<le> B) trades"
    and B: "1 \<le> B"
    and room: "4 * real (length trades) * B\<^sup>2 < overflow_bound"
  shows "calculateConsistency_double trades =
     (if mean_abs (map pnl trades) = 0 then Finite 1
      else d_max (Finite 1) (d_min (Finite 10) (d_round (d_mul (Finite 10)
             (d_exp (d_mul (Finite (- 0.6))
                (to_double (population_stddev (map pnl trades) / mean_abs (map pnl trades)))))))))"
proof -
  define xs where "xs = map pnl trades"
  define n where "n = real (length trades)"
  define m where "m = pnl_mean xs"
  define sq where "sq = map (\<lambda>x. (x - m)\<^sup>2) xs"
  have n5: "5 \<le> n" using five by (simp add: n_def)
  have len: "length xs = length trades" by (simp add: xs_def)
  have xsB: "\<bar>x\<bar> \<le> B" if "x \<in> set xs" for x
    using bound that by (auto simp: xs_def list_all_iff)
  have B2: "B \<le> B\<^sup>2" using B by (simp add: power2_eq_square)
  have nB: "n * B \<le> n * B\<^sup>2" using B2 n5 by simp
  have nB2: "n * B\<^sup>2 \<le> 4 * n * B\<^sup>2" using n5 by simp
  have room': "4 * n * B\<^sup>2 < overflow_bound" using room by (simp add: n_def)
  have "1 * B\<^sup>2 \<le> n * B\<^sup>2" using n5 by (intro mult_right_mono) simp_all
  then have B2n: "B\<^sup>2 \<le> n * B\<^sup>2" by simp
  have absum: "sum_list (map abs xs) \<le> n * B"
    using sum_list_bounded [of xs abs B] xsB by (simp add: len n_def)
  have absum0: "0 \<le> sum_list (map abs xs)" by (rule sum_list_nonneg) auto
  have sum_abs: "\<bar>sum_list xs\<bar> \<le> sum_list (map abs xs)" by (rule sum_list_abs)
  have absM: "sum_list (map abs xs) < overflow_bound"
    using absum nB nB2 room' by linarith
  have pnls: "map (\<lambda>t. Finite (pnl t)) trades = map Finite xs" by (simp add: xs_def)
  have count: "real (length (map Finite xs)) = n" by (simp add: len n_def)
  have total: "foldl (\<lambda>a b. d_add a b) (Finite 0) (map Finite xs) = Finite (sum_list xs)"
    using foldl_d_add_finite [of 0 xs] absM by simp
  have m_abs: "\<bar>m\<bar> \<le> B"
  proof -
    have "\<bar>sum_list xs\<bar> \<le> n * B" using sum_abs absum by linarith
    then have "\<bar>sum_list xs\<bar> / n \<le> B" using n5 by (simp add: field_simps)
    then show ?thesis using n5 by (simp add: m_def pnl_mean_def len n_def)
  qed
  have mean: "d_div (Finite (sum_list xs)) (Finite n) = Finite m"
  proof -
    have "\<bar>m\<bar> < overflow_bound" using m_abs B2 B2n nB2 room' by linarith
    then have "to_double (sum_list xs / n) = Finite m"
      by (simp add: to_double_finite m_def pnl_mean_def len n_def)
    then show ?thesis using n5 by simp
  qed
  have dev: "d_pow2 (d_sub (Finite x) (Finite m)) = Finite ((x - m)\<^sup>2)" if "x \<in> set xs" for x
  proof -
    have d: "\<bar>x - m\<bar> \<le> 2 * B" using xsB [OF that] m_abs by linarith
    have "2 * B \<le> 4 * n * B\<^sup>2" using B2 B2n nB2 B by linarith
    then have "\<bar>x - m\<bar> < overflow_bound" using d room' by linarith
    then have sub: "d_sub (Finite x) (Finite m) = Finite (x - m)"
      by (simp add: d_sub_def to_double_finite)
    have "\<bar>x - m\<bar> * \<bar>x - m\<bar> \<le> (2 * B) * (2 * B)"
      using d by (intro mult_mono) simp_all
    then have "(x - m)\<^sup>2 \<le> 4 * B\<^sup>2" by (simp add: power2_eq_square abs_mult [symmetric])
    moreover have "4 * B\<^sup>2 \<le> 4 * n * B\<^sup>2" using B2n by simp
    ultimately have "\<bar>(x - m)\<^sup>2\<bar> < overflow_bound" using room' by simp
    then show ?thesis
      by (simp add: sub d_pow2_def to_double_finite power2_eq_square [symmetric])
  qed
  have squares: "map (\<lambda>x. d_pow2 (d_sub x (Finite m))) (map Finite xs) = map Finite sq"
    by (simp add: sq_def dev)
  have sq_bound: "(x - m)\<^sup>2 \<le> 4 * B\<^sup>2" if "x \<in> set xs" for x
  proof -
    have d: "\<bar>x - m\<bar> \<le> 2 * B" using xsB [OF that] m_abs by linarith
    have "\<bar>x - m\<bar> * \<bar>x - m\<bar> \<le> (2 * B) * (2 * B)"
      using d by (intro mult_mono) simp_all
    then show ?thesis by (simp add: power2_eq_square abs_mult [symmetric])
  qed
  have sq_abs: "map abs sq = sq" by (simp add: sq_def)
  have sq_sum: "sum_list sq \<le> n * (4 * B\<^sup>2)"
    using sum_list_bounded [of xs "\<lambda>x. (x - m)\<^sup>2" "4 * B\<^sup>2"] sq_bound
    by (simp add: sq_def len n_def)
  have sq0: "0 \<le> sum_list sq" by (rule sum_list_nonneg) (auto simp: sq_def)
  have sqM: "sum_list sq < overflow_bound" using sq_sum room' by (simp add: mult.assoc mult.left_commute)
  have total_sq: "foldl (\<lambda>a b. d_add a b) (Finite 0) (map Finite sq) = Finite (sum_list sq)"
    using foldl_d_add_finite [of 0 sq] sqM by (simp add: sq_abs)
  have variance: "d_div (Finite (sum_list sq)) (Finite n) = Finite (sum_list sq / n)"
  proof -
    have "sum_list sq / n \<le> sum_list sq" using sq0 n5 by (intro mean_le_total) simp_all
    moreover have "0 \<le> sum_list sq / n" using sq0 n5 by simp
    ultimately have "\<bar>sum_list sq / n\<bar> < overflow_bound" using sqM by simp
    then show ?thesis using n5 by (simp add: to_double_finite)
  qed
  have stddev: "d_sqrt (Finite (sum_list sq / n)) = Finite (population_stddev xs)"
    using sq0 n5 by (simp add: population_stddev_def pnl_mean_def sq_def m_def len n_def not_less)
  have total_abs: "foldl (\<lambda>a b. d_add a (d_abs b)) (Finite 0) (map Finite xs)
      = Finite (sum_list (map abs xs))"
    using foldl_d_abs_finite [of 0 xs] absM by simp
  have avg: "d_div (Finite (sum_list (map abs xs))) (Finite n) = Finite (mean_abs xs)"
  proof -
    have "sum_list (map abs xs) / n \<le> sum_list (map abs xs)"
      using absum0 n5 by (intro mean_le_total) simp_all
    moreover have "0 \<le> sum_list (map abs xs) / n" using absum0 n5 by simp
    ultimately have "\<bar>sum_list (map abs xs) / n\<bar> < overflow_bound" using absM by simp
    then have "to_double (sum_list (map abs xs) / n) = Finite (mean_abs xs)"
      by (simp add: to_double_finite mean_abs_def pnl_mean_def len n_def)
    then show ?thesis using n5 by simp
  qed
  have cv: "d_div (Finite (population_stddev xs)) (Finite (mean_abs xs))
      = to_double (population_stddev xs / mean_abs xs)" if "mean_abs xs \<noteq> 0"
    using that by simp
  have "\<not> length trades < 5" using five by simp
  then show ?thesis
    unfolding calculateConsistency_double_def Let_def pnls count total mean squares total_sq
      variance stddev total_abs avg xs_def [symmetric]
    by (simp add: cv del: d_max.simps d_min.simps d_round.simps d_mul.simps d_exp.simps d_div.simps)
qed

lemma spec_cv_nonneg: "0 \<le> population_stddev xs / mean_abs xs"
proof -
  have "0 \<le> sum_list (map (\<lambda>x. (x - pnl_mean xs)\<^sup>2) xs)" by (rule sum_list_nonneg) auto
  then have "0 \<le> population_stddev xs" by (simp add: population_stddev_def pnl_mean_def)
  moreover have "0 \<le> sum_list (map abs xs)" by (rule sum_list_nonneg) auto
  then have "0 \<le> mean_abs xs" by (simp add: mean_abs_def pnl_mean_def)
  ultimately show ?thesis by simp
qed

lemma clamped_score_finite:
  assumes "0 \<le> cv" and "cv < overflow_bound"
  shows "d_max (Finite 1) (d_min (Finite 10) (d_round (d_mul (Finite 10)
           (d_exp (d_mul (Finite (- 0.6)) (to_double cv))))))
         = Finite (real_of_int (max 1 (min 10 (round (10 * exp (- 0.6 * cv))))))"
proof -
  have a: "to_double cv = Finite cv" using assms by (simp add: to_double_finite)
  have "\<bar>- 0.6 * cv\<bar> < overflow_bound" using assms by simp
  then have b: "d_mul (Finite (- 0.6)) (Finite cv) = Finite (- 0.6 * cv)"
    by (simp only: d_mul.simps to_double_finite)
  define ex where "ex = exp (- 0.6 * cv)"
  have e: "0 < ex" "ex \<le> 1" using assms(1) by (simp_all add: ex_def)
  then have "\<bar>ex\<bar> < overflow_bound" using overflow_bound_large by linarith
  then have "d_exp (Finite (- 0.6 * cv)) = Finite ex"
    unfolding ex_def by (simp only: d_exp.simps to_double_finite)
  then have c: "d_exp (Finite (- 0.6 * cv)) = Finite (exp (- 0.6 * cv))" by (simp only: ex_def)
  have "\<bar>10 * ex\<bar> < overflow_bound" using e overflow_bound_large by linarith
  then have "d_mul (Finite 10) (Finite ex) = Finite (10 * ex)"
    by (simp only: d_mul.simps to_double_finite)
  then have d: "d_mul (Finite 10) (Finite (exp (- 0.6 * cv))) = Finite (10 * exp (- 0.6 * cv))"
    by (simp only: ex_def)
  show ?thesis
    unfolding a b c d by (simp add: max_def min_def)
qed

lemma clamped_score_overflow:
  assumes "overflow_bound \<le> cv"
  shows "d_max (Finite 1) (d_min (Finite 10) (d_round (d_mul (Finite 10)
           (d_exp (d_mul (Finite (- 0.6)) (to_double cv))))))
         = Finite (real_of_int (max 1 (min 10 (round (10 * exp (- 0.6 * cv))))))"
proof -
  have a: "to_double cv = PosInf" using assms by (simp add: to_double_def)
  have "19 < 0.6 * cv" using assms overflow_bound_large by simp
  then have "10 * exp (- (0.6 * cv)) < 1 / 2" by (rule exp_decay)
  then have "round (10 * exp (- (0.6 * cv))) = 0" by (intro round_small) simp_all
  then have r: "round (10 * exp (- 0.6 * cv)) = 0" by simp
  have l: "d_max (Finite 1) (d_min (Finite 10) (d_round (d_mul (Finite 10)
           (d_exp (d_mul (Finite (- 0.6)) PosInf))))) = Finite 1"
    by (simp add: signed_inf_def to_double_def overflow_bound_def)
  show ?thesis unfolding a l r by simp
qed

lemma calculateConsistency_double_agrees:
  assumes bound: "list_all (\<lambda>t. \<bar>pnl t\<bar> \<le> B) trades"
    and B: "1 \<le> B"
    and room: "4 * real (length trades) * B\<^sup>2 < overflow_bound"
  shows "calculateConsistency_double trades = Finite (real_of_int (calculateConsistency trades))"
proof (cases "length trades < 5")
  case True
  then show ?thesis by (simp add: calculateConsistency_double_def calculateConsistency_few)
next
  case False
  then have five: "5 \<le> length trades" by simp
  note stats = calculateConsistency_double_statistics [OF five bound B room]
  show ?thesis
  proof (cases "mean_abs (map pnl trades) = 0")
    case True
    then show ?thesis by (simp add: stats calculateConsistency_guard [OF five])
  next
    case False
    let ?cv = "population_stddev (map pnl trades) / mean_abs (map pnl trades)"
    have "d_max (Finite 1) (d_min (Finite 10) (d_round (d_mul (Finite 10)
           (d_exp (d_mul (Finite (- 0.6)) (to_double ?cv))))))
         = Finite (real_of_int (max 1 (min 10 (round (10 * exp (- 0.6 * ?cv))))))"
      using clamped_score_finite [OF spec_cv_nonneg, of "map pnl trades"]
        clamped_score_overflow [of ?cv]
      by (cases "?cv < overflow_bound") simp_all
    then show ?thesis
      using False by (simp only: stats calculateConsistency_formula [OF five False] if_False)
  qed
qed

text \<open>
  C10, at the failing input. In double arithmetic the score of five trades of P&L
  \<^verbatim>\<open>1e308\<close> each is \<^verbatim>\<open>NaN\<close>, which is neither 0 nor a value from 1 to 10: the
  sum of the P&L overflows to \<^verbatim>\<open>Infinity\<close>, and with it the mean, the standard
  deviation and the mean absolute P&L; the guard \<^verbatim>\<open>avgAbsPnl === 0\<close> does not hold, the
  coefficient of variation is \<^verbatim>\<open>Infinity / Infinity\<close>, and
  \<^verbatim>\<open>Math.max(1, Math.min(10, NaN))\<close> is \<^verbatim>\<open>NaN\<close>.
\<close>

theorem C10_consistency_overflow:
  "calculateConsistency_double (replicate 5 (flat_trade near_max)) = NaN"
proof -
  let ?x = "Finite near_max"
  have pnls: "map (\<lambda>t. Finite (pnl t)) (replicate 5 (flat_trade near_max)) = replicate 5 ?x"
    by (simp add: flat_trade_def)
  have td: "to_double near_max = Finite near_max" "to_double (near_max + near_max) = PosInf"
    "to_double (2 * near_max) = PosInf"
    using near_max_facts by (simp_all add: to_double_def)
  have sum: "foldl (\<lambda>a b. d_add a b) (Finite 0) (replicate 5 ?x) = PosInf"
    by (simp add: eval_nat_numeral td)
  have squares: "foldl (\<lambda>a b. d_add a b) (Finite 0) (replicate 5 PosInf) = PosInf"
    by (simp add: eval_nat_numeral)
  have abs: "foldl (\<lambda>a b. d_add a (d_abs b)) (Finite 0) (replicate 5 ?x) = PosInf"
    using near_max_facts(1) by (simp add: eval_nat_numeral td)
  show ?thesis
    unfolding calculateConsistency_double_def Let_def pnls
    by (simp add: sum abs squares signed_inf_def d_sub_def d_pow2_def)
qed

subsection \<open>Streak detector\<close>

lemma streakLoop_takeWhile:
  "n \<le> length ts \<Longrightarrow>
   streakLoop ty ts n k = k + length (takeWhile (matchesStreakType ty) (rev (take n ts)))"
proof (induction n arbitrary: k)
  case 0
  then show ?case by simp
next
  case (Suc n)
  then have "take (Suc n) ts = take n ts @ [ts ! n]"
    by (simp add: take_Suc_conv_app_nth)
  with Suc show ?case by simp
qed

lemma length_takeWhile_ge:
  "n \<le> length xs \<Longrightarrow> (n \<le> length (takeWhile P xs)) = list_all P (take n xs)"
proof (induction xs arbitrary: n)
  case Nil
  then show ?case by simp
next
  case (Cons x xs)
  then show ?case by (cases n) auto
qed

lemma drop_last_three:
  "3 \<le> length s \<Longrightarrow> list_all P (drop (length s - 3) s) = list_all P (take 3 (rev s))"
  by (simp add: take_rev list_all_iff)

lemma last_drop_three: "3 \<le> length s \<Longrightarrow> last (drop (length s - 3) s) = last s"
  by simp

lemma useTradeCycleTracker_sorted:
  "useTradeCycleTracker ts = spec_streak (sort_key dateTimeKey ts)"
proof (cases "length ts < 3")
  case True
  then show ?thesis
    by (simp add: useTradeCycleTracker_def spec_streak_def STREAK_THRESHOLD_def)
next
  case False
  define s where "s = sort_key dateTimeKey ts"
  have len: "3 \<le> length s" using False by (simp add: s_def)
  then obtain l older where r: "rev s = l # older" by (cases "rev s") auto
  then have l: "last s = l" by (metis hd_rev list.sel(1))
  have run: "trailing_run s = takeWhile (\<lambda>t. same_sign (pnl l) (pnl t)) (rev s)"
    by (simp add: trailing_run_def r)
  have loop: "streakLoop ty s (length s) 0 = length (takeWhile (matchesStreakType ty) (rev s))" for ty
    by (simp add: streakLoop_takeWhile)
  have three: "list_all P (drop (length s - 3) s) = (\<not> length (takeWhile P (rev s)) < 3)" for P
    using len by (simp add: length_takeWhile_ge drop_last_three not_less)
  consider (neg) "pnl l < 0" | (pos) "0 < pnl l" | (zero) "pnl l = 0" by linarith
  then show ?thesis
  proof cases
    case neg
    then have eq: "(\<lambda>t. same_sign (pnl l) (pnl t)) = matchesStreakType Loss"
      by (auto simp: same_sign_def matchesStreakType_def fun_eq_iff)
    have m: "matchesStreakType Loss = (\<lambda>t. pnl t < 0)"
      by (auto simp: matchesStreakType_def fun_eq_iff)
    show ?thesis
      using False len neg
      by (simp add: useTradeCycleTracker_def spec_streak_def STREAK_THRESHOLD_def Let_def
          s_def [symmetric] l run eq loop m three)
  next
    case pos
    then have eq: "(\<lambda>t. same_sign (pnl l) (pnl t)) = matchesStreakType Win"
      by (auto simp: same_sign_def matchesStreakType_def fun_eq_iff)
    have m: "matchesStreakType Win = (\<lambda>t. 0 < pnl t)"
      by (auto simp: matchesStreakType_def fun_eq_iff)
    show ?thesis
      using False len pos
      by (simp add: useTradeCycleTracker_def spec_streak_def STREAK_THRESHOLD_def Let_def
          s_def [symmetric] l run eq loop m three)
  next
    case zero
    then have "takeWhile (\<lambda>t. same_sign (pnl l) (pnl t)) (rev s) = []"
      by (simp add: r same_sign_def)
    with False len zero show ?thesis
      by (simp add: useTradeCycleTracker_def spec_streak_def STREAK_THRESHOLD_def Let_def
          s_def [symmetric] l run)
  qed
qed

lemma spec_streak_three_losses:
  assumes "0 < pnl d" "pnl a < 0" "pnl b < 0" "pnl c < 0"
  shows "spec_streak (older @ [d, a, b, c]) = Some \<lparr>stype = Loss, slength = 3\<rparr>"
  using assms by (simp add: spec_streak_def trailing_run_def same_sign_def)

text \<open>
  C3. On a list sorted ascending by the date-then-time key the detector returns the
  trailing run of the specification: its length when the run has three or more trades, with
  the sign of the most recent trade as type, and null otherwise (also below three trades).
  Three most recent losses after a win give a loss streak of length 3.
\<close>

theorem C3_trailing_streak:
  "(sorted (map dateTimeKey ts) \<longrightarrow> useTradeCycleTracker ts = spec_streak ts) \<and>
   (sorted (map dateTimeKey (older @ [d, a, b, c])) \<and>
      0 < pnl d \<and> pnl a < 0 \<and> pnl b < 0 \<and> pnl c < 0 \<longrightarrow>
    useTradeCycleTracker (older @ [d, a, b, c]) = Some \<lparr>stype = Loss, slength = 3\<rparr>)"
  by (simp add: useTradeCycleTracker_sorted sort_key_id_if_sorted spec_streak_three_losses
      del: map_append)

theorem C3_trailing_streak_witness:
  "sorted (map dateTimeKey streak_day) \<and>
   spec_streak streak_day = Some \<lparr>stype = Loss, slength = 3\<rparr> \<and>
   useTradeCycleTracker streak_day = Some \<lparr>stype = Loss, slength = 3\<rparr>"
proof -
  have s: "sorted (map dateTimeKey streak_day)"
    by (simp add: streak_day_def timed_trade_def dateTimeKey_def)
  have p: "spec_streak streak_day = Some \<lparr>stype = Loss, slength = 3\<rparr>"
    by (simp add: streak_day_def timed_trade_def spec_streak_def trailing_run_def same_sign_def)
  from s p C3_trailing_streak [of streak_day] show ?thesis by simp
qed

lemma filter_key_distinct:
  "distinct (map f xs) \<Longrightarrow> k \<in> set xs \<Longrightarrow> filter (\<lambda>x. f k = f x) xs = [k]"
proof (induction xs)
  case Nil
  then show ?case by simp
next
  case (Cons x xs)
  show ?case
  proof (cases "k = x")
    case True
    with Cons.prems have "\<forall>y\<in>set xs. f k \<noteq> f y" by auto
    then have "filter (\<lambda>x. f k = f x) xs = []" by (simp add: filter_empty_conv)
    with True show ?thesis by simp
  next
    case False
    with Cons.prems have "k \<in> set xs" and "f k \<noteq> f x" and "distinct (map f xs)"
      by (auto simp: image_iff)
    with Cons.IH show ?thesis by simp
  qed
qed

lemma sort_key_permutation:
  assumes "mset xs = mset ys" and "distinct (map f xs)"
  shows "sort_key f xs = sort_key f ys"
proof (rule properties_for_sort_key)
  show "mset (sort_key f ys) = mset xs" using assms(1) by simp
  show "sorted (map f (sort_key f ys))" by simp
  fix k assume "k \<in> set (sort_key f ys)"
  then have ky: "k \<in> set ys" by simp
  then have kx: "k \<in> set xs" using assms(1) by (metis set_mset_mset)
  have "mset (map f xs) = mset (map f ys)" using assms(1) by (metis mset_map)
  then have dy: "distinct (map f ys)" using assms(2) by (metis mset_eq_imp_distinct_iff)
  have "filter (\<lambda>x. f k = f x) (sort_key f ys) = filter (\<lambda>x. f k = f x) ys"
    using sort_key_stable [of f "f k" ys] by (simp add: eq_commute)
  then show "filter (\<lambda>x. f k = f x) (sort_key f ys) = filter (\<lambda>x. f k = f x) xs"
    by (simp add: filter_key_distinct [OF assms(2) kx] filter_key_distinct [OF dy ky])
qed

text \<open>
  C2 (as amended). Two trade lists that are permutations of each other, and in which no two
  trades have the same date-then-time key, give the same streak: null for both or the same
  type and length for both.
\<close>

theorem C2_streak_permutation:
  assumes "mset xs = mset ys" and "distinct (map dateTimeKey xs)"
  shows "useTradeCycleTracker xs = useTradeCycleTracker ys"
proof -
  have "sort_key dateTimeKey xs = sort_key dateTimeKey ys"
    using assms by (rule sort_key_permutation)
  then have "spec_streak (sort_key dateTimeKey xs) = spec_streak (sort_key dateTimeKey ys)"
    by simp
  then show ?thesis by (simp only: useTradeCycleTracker_sorted)
qed

theorem C2_streak_permutation_witness:
  "mset streak_day = mset (rev streak_day) \<and> distinct (map dateTimeKey streak_day) \<and>
   useTradeCycleTracker (rev streak_day) = Some \<lparr>stype = Loss, slength = 3\<rparr>"
proof -
  have d: "distinct (map dateTimeKey streak_day)"
    by (simp add: streak_day_def timed_trade_def dateTimeKey_def)
  have s: "sorted (map dateTimeKey streak_day)"
    by (simp add: streak_day_def timed_trade_def dateTimeKey_def)
  have u: "useTradeCycleTracker streak_day = Some \<lparr>stype = Loss, slength = 3\<rparr>"
    by (simp add: useTradeCycleTracker_sorted sort_key_id_if_sorted [OF s])
       (simp add: streak_day_def timed_trade_def spec_streak_def trailing_run_def same_sign_def)
  have "useTradeCycleTracker streak_day = useTradeCycleTracker (rev streak_day)"
    using d by (intro C2_streak_permutation) simp_all
  with d u show ?thesis by simp
qed

text \<open>Without the condition on the keys the claim fails: the sort is stable, so trades
  that share a key stay in their input order. Four trades of the same minute, one win and
  three losses, have a loss streak when the win comes first and none when it comes last.\<close>

theorem C2_same_key_counterexample:
  "mset same_minute_win_first = mset same_minute_win_last \<and>
   useTradeCycleTracker same_minute_win_first = Some \<lparr>stype = Loss, slength = 3\<rparr> \<and>
   useTradeCycleTracker same_minute_win_last = None"
proof -
  have m: "mset same_minute_win_first = mset same_minute_win_last"
    by (simp add: same_minute_win_first_def same_minute_win_last_def add_ac)
  have s1: "sorted (map dateTimeKey same_minute_win_first)"
    by (simp add: same_minute_win_first_def timed_trade_def dateTimeKey_def)
  have s2: "sorted (map dateTimeKey same_minute_win_last)"
    by (simp add: same_minute_win_last_def timed_trade_def dateTimeKey_def)
  have u1: "useTradeCycleTracker same_minute_win_first = Some \<lparr>stype = Loss, slength = 3\<rparr>"
    by (simp add: useTradeCycleTracker_sorted sort_key_id_if_sorted [OF s1])
       (simp add: same_minute_win_first_def timed_trade_def spec_streak_def trailing_run_def
          same_sign_def)
  have u2: "useTradeCycleTracker same_minute_win_last = None"
    by (simp add: useTradeCycleTracker_sorted sort_key_id_if_sorted [OF s2])
       (simp add: same_minute_win_last_def timed_trade_def spec_streak_def trailing_run_def
          same_sign_def)
  from m u1 u2 show ?thesis by simp
qed

subsection \<open>The analyze operation\<close>

lemma mergeResults_authoritative:
  "keyMetrics (mergeResults offline ai) = keyMetrics offline \<and>
   performanceGrade (mergeResults offline ai) = performanceGrade offline \<and>
   tagPerformance (mergeResults offline ai) = tagPerformance offline"
  by (simp add: mergeResults_def Let_def)

text \<open>
  C1. Whatever the enrichment call yields - a rejection, or any value, also one that
  carries a grade, metrics or tag lists of its own - the analyze operation ends with a
  result whose keyMetrics, performanceGrade and tagPerformance are those of the offline
  analysis of the same trades.
\<close>

theorem C1_offline_metrics_authoritative:
  "\<exists>final. analysisResult (handleAnalyze toFixed enrich trades t formatCurrency) = Some final \<and>
     keyMetrics final = keyMetrics (analyzeTradesOffline toFixed trades t formatCurrency) \<and>
     performanceGrade final = performanceGrade (analyzeTradesOffline toFixed trades t formatCurrency) \<and>
     tagPerformance final = tagPerformance (analyzeTradesOffline toFixed trades t formatCurrency)"
proof (cases "enrich trades")
  case (Inl aiError)
  then have "analysisResult (handleAnalyze toFixed enrich trades t formatCurrency)
      = Some (analyzeTradesOffline toFixed trades t formatCurrency)"
    by (simp add: handleAnalyze_def Let_def)
  then show ?thesis by simp
next
  case (Inr aiResult)
  then have "analysisResult (handleAnalyze toFixed enrich trades t formatCurrency)
      = Some (mergeResults (analyzeTradesOffline toFixed trades t formatCurrency) aiResult)"
    by (simp add: handleAnalyze_def Let_def)
  then show ?thesis by (simp add: mergeResults_authoritative)
qed

lemma foldl_pnl_sum_list: "foldl (\<lambda>acc t. acc + pnl t) (a::real) xs = a + sum_list (map pnl xs)"
  by (induction xs arbitrary: a) simp_all

lemma streak_day_grade:
  "grade (performanceGrade (analyzeTradesOffline plain_toFixed streak_day plain_t plain_currency))
     = GradeD"
proof -
  have c: "calculateConsistency streak_day = 0"
    by (simp add: calculateConsistency_few streak_day_def)
  have w: "winRate_of streak_day = 25"
    by (simp add: winRate_of_def totalWins_def streak_day_def timed_trade_def)
  have p: "profitFactor_of streak_day = Num 1"
    by (simp add: profitFactor_of_def totalWinPnl_def totalLossPnl_def streak_day_def
        timed_trade_def)
  show ?thesis
    by (simp add: analyzeTradesOffline_def Let_def keyMetrics_of_def calculatePerformanceGrade_def
        c w p)
qed

theorem C1_offline_metrics_authoritative_witness:
  "map_option (\<lambda>r. grade (performanceGrade r))
     (analysisResult (handleAnalyze plain_toFixed forged_enrichment streak_day plain_t plain_currency))
     = Some GradeD \<and>
   map_option (\<lambda>r. grade (performanceGrade r))
     (analysisResult (handleAnalyze plain_toFixed (\<lambda>trades. Inl ''no key'') streak_day plain_t
        plain_currency))
     = Some GradeD"
  using C1_offline_metrics_authoritative
      [of plain_toFixed forged_enrichment streak_day plain_t plain_currency]
    C1_offline_metrics_authoritative
      [of plain_toFixed "\<lambda>trades. Inl ''no key''" streak_day plain_t plain_currency]
    streak_day_grade
  by auto

subsection \<open>Trend detector\<close>

lemma analyzePerformanceTrend_iff:
  "(analyzePerformanceTrend toFixed trades (winRate_of trades) (profitFactor_of trades) t \<noteq> None)
     = (40 \<le> length trades \<and> degraded_against (take 20 trades) trades)"
  by (simp add: analyzePerformanceTrend_def degraded_against_def TREND_ANALYSIS_PERIOD_def Let_def
      winRate_of_def totalWins_def profitFactor_of_def totalWinPnl_def totalLossPnl_def not_less)

lemma analyzePerformanceTrend_topic:
  "analyzePerformanceTrend toFixed trades w p t = Some i \<Longrightarrow> topic i = Some Performance"
  unfolding analyzePerformanceTrend_def Let_def
  by (metis actionable_insight.select_convs(4) option.distinct(1) option.inject)

lemma findGoldenHour_topic:
  "findGoldenHour trades t formatCurrency = Some i \<Longrightarrow> topic i = Some Timing"
  by (auto simp: findGoldenHour_def Let_def split: list.splits if_splits)

lemma tagInsights_topic:
  "i \<in> set (tagInsights trades t formatCurrency) \<Longrightarrow> topic i \<noteq> Some Performance"
  by (auto simp: tagInsights_def Let_def take_Suc split: list.splits if_splits)

lemma has_trend_insight_offline:
  "has_trend_insight (actionableInsights (analyzeTradesOffline toFixed trades t formatCurrency))
     = (analyzePerformanceTrend toFixed trades (winRate_of trades) (profitFactor_of trades) t \<noteq> None)"
proof -
  let ?tr = "analyzePerformanceTrend toFixed trades (winRate_of trades) (profitFactor_of trades) t"
  let ?gh = "findGoldenHour trades t formatCurrency"
  have a: "actionableInsights (analyzeTradesOffline toFixed trades t formatCurrency)
           = tagInsights trades t formatCurrency @ option_list ?tr @ option_list ?gh"
    by (simp add: analyzeTradesOffline_def Let_def)
  have g: "\<not> list_ex (\<lambda>i. topic i = Some Performance) (option_list ?gh)"
    by (cases ?gh) (auto simp: option_list_def dest: findGoldenHour_topic)
  have tg: "\<not> list_ex (\<lambda>i. topic i = Some Performance) (tagInsights trades t formatCurrency)"
    using tagInsights_topic by (auto simp: list_ex_iff)
  have tr: "list_ex (\<lambda>i. topic i = Some Performance) (option_list ?tr) = (?tr \<noteq> None)"
    by (cases ?tr) (auto simp: option_list_def dest: analyzePerformanceTrend_topic)
  show ?thesis
    unfolding has_trend_insight_def a using g tg tr by simp
qed

lemma busy_day_journal_sorted: "sortTrades busy_day_journal = busy_day_journal"
  by code_simp

lemma cleared_time_journal_list:
  "cleared_time_journal = timed_trade ''a'' ''2024-06-28'' [] 30 # tl busy_day_journal"
  by code_simp

lemma cleared_time_journal_keys:
  "distinct (map dateTimeKey cleared_time_journal)"
  by code_simp

lemma cleared_time_journal_recent:
  "most_recent 20 cleared_time_journal = take 20 (tl busy_day_journal)"
  by code_simp

lemma cleared_time_journal_rates:
  "length cleared_time_journal = 40"
  "winRate_of cleared_time_journal = 52.5"
  "winRate_of (most_recent 20 cleared_time_journal) = 35"
  "winRate_of (take 20 cleared_time_journal) = 40"
  "profitFactor_of cleared_time_journal = Num (37 / 19)"
  "profitFactor_of (take 20 cleared_time_journal) = Num 2"
  by code_simp+

text \<open>
  C4, at the failing input. \<^verbatim>\<open>analyzePerformanceTrend\<close> takes the first 20 trades of
  the list it is given and does not sort them; the store keeps the list newest first, but
  \<^verbatim>\<open>updateTrade\<close> does not sort again when a time is cleared. In the journal of forty
  trades whose newest trade, a win, has lost its time, that trade is still the first of the
  list although its key is now the oldest of its day. The 20 most recent trades by the
  chronological key have a win rate of 35, which is 17.5 points below the lifetime rate of
  52.5, so the degradation test of the claim holds; the window of the code holds the
  untimed win in place of a loss, its win rate is 40 and its profit factor 2 against a
  lifetime factor of 37/19, and no trend insight is produced.
\<close>

theorem C4_cleared_time_window:
  "sortTrades busy_day_journal = busy_day_journal \<and>
   updateTrade ''a'' (no_updates\<lparr>time_up := Some []\<rparr>) busy_day_journal
     = timed_trade ''a'' ''2024-06-28'' [] 30 # tl busy_day_journal \<and>
   distinct (map dateTimeKey cleared_time_journal) \<and>
   most_recent 20 cleared_time_journal = take 20 (tl busy_day_journal) \<and>
   spec_trend_fires cleared_time_journal \<and>
   \<not> has_trend_insight (actionableInsights
        (analyzeTradesOffline plain_toFixed cleared_time_journal plain_t plain_currency))"
proof -
  have s: "spec_trend_fires cleared_time_journal"
    by (simp add: spec_trend_fires_def degraded_against_def cleared_time_journal_rates)
  have "\<not> degraded_against (take 20 cleared_time_journal) cleared_time_journal"
    by (simp add: degraded_against_def cleared_time_journal_rates)
  then have n: "\<not> has_trend_insight (actionableInsights
        (analyzeTradesOffline plain_toFixed cleared_time_journal plain_t plain_currency))"
    by (simp only: has_trend_insight_offline analyzePerformanceTrend_iff) simp
  have u: "updateTrade ''a'' (no_updates\<lparr>time_up := Some []\<rparr>) busy_day_journal
     = timed_trade ''a'' ''2024-06-28'' [] 30 # tl busy_day_journal"
    using cleared_time_journal_list by (simp only: cleared_time_journal_def)
  from busy_day_journal_sorted u cleared_time_journal_keys cleared_time_journal_recent s n
  show ?thesis by (intro conjI)
qed

subsection \<open>Tag rankings\<close>

lemma set_first_seen: "set (first_seen seen xs) = set seen \<union> set xs"
  by (induction xs arbitrary: seen) auto

lemma distinct_first_seen: "distinct seen \<Longrightarrow> distinct (first_seen seen xs)"
  by (induction xs arbitrary: seen) auto

lemma upsert_fold_keys:
  assumes "\<And>acc e. step acc e = AList.update (fst e) (g acc e) acc"
  shows "map fst (foldl step acc occ) = first_seen (map fst acc) (map fst occ)"
  by (induction occ arbitrary: acc) (simp_all add: assms update_keys)

lemma upsert_fold_lookup:
  assumes "\<And>acc e. step acc e =
     AList.update (fst e) (bump (snd e) (case map_of acc (fst e) of Some s \<Rightarrow> s | None \<Rightarrow> zero)) acc"
  shows "k \<in> fst ` set occ \<Longrightarrow>
     map_of (foldl step acc occ) k =
       Some (foldl (\<lambda>s p. bump p s) (case map_of acc k of Some s \<Rightarrow> s | None \<Rightarrow> zero)
               (pnls_of k occ))"
proof (induction occ arbitrary: acc)
  case Nil
  then show ?case by simp
next
  case (Cons e occ)
  have st: "map_of (step acc' e') =
      (map_of acc')(fst e' \<mapsto> bump (snd e') (case map_of acc' (fst e') of Some s \<Rightarrow> s | None \<Rightarrow> zero))"
    for acc' e'
    by (simp add: assms update_conv')
  have untouched: "map_of (foldl step acc' occ) k = map_of acc' k" if "k \<notin> fst ` set occ" for acc'
    using that by (induction occ arbitrary: acc') (simp_all add: st)
  show ?case
  proof (cases "k \<in> fst ` set occ")
    case True
    then show ?thesis
      using Cons.IH [of "step acc e"] by (simp add: st pnls_of_def)
  next
    case False
    with Cons.prems have k: "fst e = k" by auto
    have "pnls_of k occ = []" using False by (auto simp: pnls_of_def filter_empty_conv)
    then show ?thesis using k untouched [OF False, of "step acc e"]
      by (simp add: st pnls_of_def)
  qed
qed

lemma upsert_fold_list:
  assumes "\<And>acc e. step acc e =
     AList.update (fst e) (bump (snd e) (case map_of acc (fst e) of Some s \<Rightarrow> s | None \<Rightarrow> zero)) acc"
  shows "foldl step [] occ =
     map (\<lambda>k. (k, foldl (\<lambda>s p. bump p s) zero (pnls_of k occ))) (first_seen [] (map fst occ))"
proof -
  let ?al = "foldl step [] occ"
  let ?F = "\<lambda>k. foldl (\<lambda>s p. bump p s) zero (pnls_of k occ)"
  have keys: "map fst ?al = first_seen [] (map fst occ)"
    using upsert_fold_keys [of step _ "[]" occ] assms by simp
  then have d: "distinct (map fst ?al)" by (simp add: distinct_first_seen)
  have "v = ?F k" if "(k, v) \<in> set ?al" for k v
  proof -
    from that have "k \<in> set (map fst ?al)" by force
    then have "k \<in> fst ` set occ" by (simp add: keys set_first_seen)
    then have "map_of ?al k = Some (?F k)"
      using upsert_fold_lookup [of step bump zero k occ "[]"] assms by simp
    moreover have "map_of ?al k = Some v" using d that by simp
    ultimately show ?thesis by simp
  qed
  then have "map (\<lambda>kv. (fst kv, ?F (fst kv))) ?al = map (\<lambda>kv. kv) ?al"
    by (intro map_cong refl) auto
  then have "?al = map (\<lambda>k. (k, ?F k)) (map fst ?al)" by (simp add: o_def)
  then show ?thesis by (simp only: keys)
qed

lemma nested_fold_occurrences:
  "foldl (\<lambda>m trade. case tags trade of None \<Rightarrow> m
                      | Some tgs \<Rightarrow> foldl (step (pnl trade)) m (keys tgs)) acc trades
   = foldl (\<lambda>m e. step (snd e) m (fst e)) acc (tag_occurrences keys trades)"
proof (induction trades arbitrary: acc)
  case Nil
  then show ?case by (simp add: tag_occurrences_def)
next
  case (Cons trade trades)
  then show ?case
    by (cases "tags trade") (simp_all add: tag_occurrences_def foldl_map)
qed

lemma fold_bump_report:
  "foldl (\<lambda>s p. bump_report p s) s ps =
     \<lparr>pnl_t = pnl_t s + sum_list ps,
      wins_t = wins_t s + length (filter (\<lambda>p. 0 < p) ps),
      losses_t = losses_t s + length (filter (\<lambda>p. p < 0) ps),
      count_t = count_t s + length ps\<rparr>"
  by (induction ps arbitrary: s) (simp_all add: bump_report_def Let_def)

lemma computeTagStats_tally:
  "computeTagStats trades =
     map (\<lambda>k. (k, \<lparr>pnl_t = sum_list (pnls_of k (tag_occurrences allTradeTags trades)),
                    wins_t = length (filter (\<lambda>p. 0 < p) (pnls_of k (tag_occurrences allTradeTags trades))),
                    losses_t = length (filter (\<lambda>p. p < 0) (pnls_of k (tag_occurrences allTradeTags trades))),
                    count_t = length (pnls_of k (tag_occurrences allTradeTags trades))\<rparr>))
       (first_seen [] (map fst (tag_occurrences allTradeTags trades)))"
proof -
  let ?occ = "tag_occurrences allTradeTags trades"
  let ?step = "\<lambda>m e. tagStatsStep (snd e) m (fst e)"
  have "computeTagStats trades = foldl ?step [] ?occ"
    unfolding computeTagStats_def by (rule nested_fold_occurrences)
  also have "\<dots> = map (\<lambda>k. (k, foldl (\<lambda>s p. bump_report p s)
        \<lparr>pnl_t = 0, wins_t = 0, losses_t = 0, count_t = 0\<rparr> (pnls_of k ?occ)))
      (first_seen [] (map fst ?occ))"
    by (rule upsert_fold_list) (simp add: tagStatsStep_def bump_report_def Let_def)
  finally show ?thesis by (simp add: fold_bump_report)
qed

lemma report_stats:
  "map toTagStat (significantTags trades) = significant_stats (tag_occurrences allTradeTags trades)"
  by (simp add: significantTags_def significant_stats_def computeTagStats_tally filter_map o_def
      toTagStat_def tally_def MIN_TAG_TRADES_def)

lemma map_insort_key:
  "map f (insort_key (\<lambda>x. g (f x)) x xs) = insort_key g (f x) (map f xs)"
  by (induction xs) simp_all

lemma map_sort_key:
  "map f (sort_key (\<lambda>x. g (f x)) xs) = sort_key g (map f xs)"
  by (induction xs) (simp_all add: map_insort_key)

lemma map_top_profitable:
  "map f (take n (sort_key (\<lambda>a. - totalPnl (f a)) (filter (\<lambda>a. 0 < totalPnl (f a)) xs)))
     = top_profitable n (map f xs)"
  unfolding top_profitable_def filter_map o_def
  by (simp only: map_sort_key [symmetric] take_map)

lemma map_top_unprofitable:
  "map f (take n (sort_key (\<lambda>a. totalPnl (f a)) (filter (\<lambda>a. totalPnl (f a) < 0) xs)))
     = top_unprofitable n (map f xs)"
  unfolding top_unprofitable_def filter_map o_def
  by (simp only: map_sort_key [symmetric] take_map)

lemma report_top_lists:
  "map toTagStat (profitableTags trades)
     = top_profitable 5 (significant_stats (tag_occurrences allTradeTags trades))"
  "map toTagStat (unprofitableTags trades)
     = top_unprofitable 5 (significant_stats (tag_occurrences allTradeTags trades))"
  using map_top_profitable [of toTagStat 5 "significantTags trades"]
    map_top_unprofitable [of toTagStat 5 "significantTags trades"]
  by (simp_all add: profitableTags_def unprofitableTags_def report_stats toTagStat_def)

lemma fold_bump_card:
  "foldl (\<lambda>s p. bump_card p s) s ps =
     \<lparr>totalPnl_u = totalPnl_u s + sum_list ps,
      tradeCount_u = tradeCount_u s + length ps,
      winCount_u = winCount_u s + length (filter (\<lambda>p. 0 < p) ps)\<rparr>"
  by (induction ps arbitrary: s) (simp_all add: bump_card_def Let_def)

lemma statsMap_tally:
  "statsMap trades =
     map (\<lambda>k. (k, \<lparr>totalPnl_u = sum_list (pnls_of k (tag_occurrences flatTagValues trades)),
                    tradeCount_u = length (pnls_of k (tag_occurrences flatTagValues trades)),
                    winCount_u = length (filter (\<lambda>p. 0 < p)
                                   (pnls_of k (tag_occurrences flatTagValues trades)))\<rparr>))
       (first_seen [] (map fst (tag_occurrences flatTagValues trades)))"
proof -
  let ?occ = "tag_occurrences flatTagValues trades"
  let ?step = "\<lambda>m e. statsMapStep (snd e) m (fst e)"
  have "statsMap trades = foldl ?step [] ?occ"
    unfolding statsMap_def by (rule nested_fold_occurrences)
  also have "\<dots> = map (\<lambda>k. (k, foldl (\<lambda>s p. bump_card p s)
        \<lparr>totalPnl_u = 0, tradeCount_u = 0, winCount_u = 0\<rparr> (pnls_of k ?occ)))
      (first_seen [] (map fst ?occ))"
    by (rule upsert_fold_list) (simp add: statsMapStep_def bump_card_def Let_def)
  finally show ?thesis by (simp add: fold_bump_card)
qed

lemma card_stats:
  "map card_view (tagStats trades) = significant_stats (tag_occurrences flatTagValues trades)"
  by (simp add: tagStats_def significant_stats_def statsMap_tally filter_map o_def
      card_view_def tally_def)

lemma card_top_lists:
  "map card_view (topProfitable trades)
     = top_profitable 3 (significant_stats (tag_occurrences flatTagValues trades))"
  "map card_view (topUnprofitable trades)
     = top_unprofitable 3 (significant_stats (tag_occurrences flatTagValues trades))"
  using map_top_profitable [of card_view 3 "tagStats trades"]
    map_top_unprofitable [of card_view 3 "tagStats trades"]
  by (simp_all add: topProfitable_def topUnprofitable_def card_stats card_view_def)

lemma top_profitable_threshold:
  "list_all P stats \<Longrightarrow> list_all P (top_profitable n stats)"
  by (auto simp: top_profitable_def list_all_iff dest!: in_set_takeD)

lemma top_unprofitable_threshold:
  "list_all P stats \<Longrightarrow> list_all P (top_unprofitable n stats)"
  by (auto simp: top_unprofitable_def list_all_iff dest!: in_set_takeD)

lemma tagPerformance_offline:
  "tagPerformance (analyzeTradesOffline toFixed trades t formatCurrency) =
     Some \<lparr>profitable = top_profitable 5 (significant_stats (tag_occurrences allTradeTags trades)),
           unprofitable = top_unprofitable 5 (significant_stats (tag_occurrences allTradeTags trades))\<rparr>"
  by (simp add: analyzeTradesOffline_def Let_def report_top_lists)

lemma first_seen_map:
  "inj_on f (set seen \<union> set xs) \<Longrightarrow> first_seen (map f seen) (map f xs) = map f (first_seen seen xs)"
proof (induction xs arbitrary: seen)
  case Nil
  then show ?case by simp
next
  case (Cons x xs)
  show ?case
  proof (cases "x \<in> set seen")
    case True
    have "inj_on f (set seen \<union> set xs)"
      using Cons.prems by (rule inj_on_subset) auto
    moreover have "f x \<in> f ` set seen" using True by simp
    ultimately show ?thesis using True Cons.IH [of seen] by simp
  next
    case False
    have "inj_on f (set (seen @ [x]) \<union> set xs)"
      using Cons.prems by (rule inj_on_subset) auto
    from Cons.IH [OF this] have IH: "first_seen (map f seen @ [f x]) (map f xs)
        = map f (first_seen (seen @ [x]) xs)" by simp
    have "f x \<notin> f ` set seen"
      using Cons.prems False by (auto simp: inj_on_def)
    then show ?thesis using False IH by simp
  qed
qed

lemma filter_eq_distinct:
  "distinct xs \<Longrightarrow> filter (\<lambda>q. q = p) xs = (if p \<in> set xs then [p] else [])"
  by (induction xs) auto

text \<open>The occurrences of the keys of a trade list, when every trade has the keys
  \<open>map name (tags_of trade)\<close>.\<close>

lemma tag_occurrences_tags_of:
  assumes "\<And>trade tgs. trade \<in> set trades \<Longrightarrow> tags trade = Some tgs \<Longrightarrow>
             keys tgs = map name (tags_of trade)"
  shows "tag_occurrences keys trades =
           concat (map (\<lambda>trade. map (\<lambda>tg. (name tg, pnl trade)) (tags_of trade)) trades)"
proof -
  have "(case tags trade of None \<Rightarrow> [] | Some tgs \<Rightarrow> map (\<lambda>k. (k, pnl trade)) (keys tgs))
        = map (\<lambda>tg. (name tg, pnl trade)) (tags_of trade)" if "trade \<in> set trades" for trade
  proof (cases "tags trade")
    case None
    then show ?thesis by (simp add: tags_of_def)
  next
    case (Some tgs)
    then show ?thesis using assms [OF that Some] by (simp add: o_def)
  qed
  then show ?thesis
    unfolding tag_occurrences_def by (intro arg_cong [where f = concat] map_cong refl)
qed

lemma pnls_of_trades_with:
  assumes inj: "inj_on name (insert p (set (concat (map tags_of trades))))"
    and dist: "\<And>trade. trade \<in> set trades \<Longrightarrow> distinct (tags_of trade)"
  shows "pnls_of (name p)
           (concat (map (\<lambda>trade. map (\<lambda>tg. (name tg, pnl trade)) (tags_of trade)) trades))
         = map pnl (trades_with p trades)"
  using assms
proof (induction trades)
  case Nil
  then show ?case by (simp add: pnls_of_def trades_with_def)
next
  case (Cons trade trades)
  have inj': "inj_on name (insert p (set (concat (map tags_of trades))))"
    using Cons.prems(1) by (rule inj_on_subset) auto
  have IH: "pnls_of (name p)
           (concat (map (\<lambda>trade. map (\<lambda>tg. (name tg, pnl trade)) (tags_of trade)) trades))
         = map pnl (trades_with p trades)"
    using Cons.IH [OF inj'] Cons.prems(2) by simp
  have eq: "(name q = name p) = (q = p)" if "q \<in> set (tags_of trade)" for q
    using Cons.prems(1) that by (auto simp: inj_on_def)
  have "filter (\<lambda>q. name q = name p) (tags_of trade) = filter (\<lambda>q. q = p) (tags_of trade)"
    by (intro filter_cong refl) (simp add: eq)
  also have "\<dots> = (if p \<in> set (tags_of trade) then [p] else [])"
    using Cons.prems(2) by (intro filter_eq_distinct) simp
  finally have here: "filter (\<lambda>q. name q = name p) (tags_of trade)
      = (if p \<in> set (tags_of trade) then [p] else [])" .
  have "pnls_of (name p) (map (\<lambda>tg. (name tg, pnl trade)) (tags_of trade))
        = (if p \<in> set (tags_of trade) then [pnl trade] else [])"
    by (simp add: pnls_of_def filter_map o_def here)
  moreover have "pnls_of k (xs @ ys) = pnls_of k xs @ pnls_of k ys" for k xs ys
    by (simp add: pnls_of_def)
  ultimately show ?case
    using IH by (simp add: trades_with_def carries_def)
qed

lemma tally_spec_tag_stat:
  assumes "pnls_of (name p) occ = map pnl (trades_with p trades)"
  shows "tally occ (name p) = spec_tag_stat name trades p"
  by (simp add: tally_def spec_tag_stat_def Let_def assms filter_map o_def)

lemma significant_stats_by_trade:
  assumes keys: "\<And>trade tgs. trade \<in> set trades \<Longrightarrow> tags trade = Some tgs \<Longrightarrow>
             keys tgs = map name (tags_of trade)"
    and inj: "inj_on name (set (concat (map tags_of trades)))"
    and dist: "\<And>trade. trade \<in> set trades \<Longrightarrow> distinct (tags_of trade)"
  shows "significant_stats (tag_occurrences keys trades) = significant_tags name trades"
proof -
  let ?all = "concat (map tags_of trades)"
  let ?occ = "concat (map (\<lambda>trade. map (\<lambda>tg. (name tg, pnl trade)) (tags_of trade)) trades)"
  have occ: "tag_occurrences keys trades = ?occ"
    using keys by (rule tag_occurrences_tags_of)
  have fst: "map fst ?occ = map name ?all"
    by (simp add: map_concat o_def)
  have order: "first_seen [] (map fst ?occ) = map name (tags_in_order trades)"
    unfolding fst tags_in_order_def
    using first_seen_map [of name "[]" ?all] inj by simp
  have "tally ?occ (name p) = spec_tag_stat name trades p" if "p \<in> set (tags_in_order trades)" for p
  proof -
    from that have "p \<in> set ?all" by (simp add: tags_in_order_def set_first_seen)
    then have "insert p (set ?all) = set ?all" by auto
    then have "inj_on name (insert p (set ?all))" using inj by simp
    then have "pnls_of (name p) ?occ = map pnl (trades_with p trades)"
      using dist by (rule pnls_of_trades_with)
    then show ?thesis by (rule tally_spec_tag_stat)
  qed
  then have "map (\<lambda>p. tally ?occ (name p)) (tags_in_order trades)
      = map (spec_tag_stat name trades) (tags_in_order trades)"
    by (intro map_cong refl)
  then have m: "map (tally ?occ) (map name (tags_in_order trades))
      = map (spec_tag_stat name trades) (tags_in_order trades)"
    by (simp only: map_map o_def)
  show ?thesis
    unfolding significant_stats_def significant_tags_def occ order by (simp only: m)
qed

lemma flatTagValues_pairs:
  "flatTagValues tgs =
     map snd (concat (map (\<lambda>(category, value).
        map (Pair category) (filter (\<lambda>v. v \<noteq> []) (category_values value))) tgs))"
proof (induction tgs)
  case Nil
  then show ?case by (simp add: flatTagValues_def)
next
  case (Cons e tgs)
  obtain c v where e: "e = (c, v)" by (cases e)
  have "flatTagValues (e # tgs)
        = filter (\<lambda>x. x \<noteq> []) (category_values v) @ flatTagValues tgs"
    by (simp add: flatTagValues_def e category_values_def)
  then show ?case by (simp add: Cons.IH e o_def)
qed

lemma flatTagValues_tags_of:
  "tags trade = Some tgs \<Longrightarrow> flatTagValues tgs = map snd (tags_of trade)"
  by (simp add: flatTagValues_pairs tags_of_def)

lemma canonical_key_inj:
  assumes "CHR '':'' \<notin> set (fst p)" and "CHR '':'' \<notin> set (fst q)"
    and "canonical_key p = canonical_key q"
  shows "p = q"
proof -
  have cut: "takeWhile (\<lambda>c. c \<noteq> CHR '':'') (canonical_key r) = fst r"
    if "CHR '':'' \<notin> set (fst r)" for r
  proof -
    have "takeWhile (\<lambda>c. c \<noteq> CHR '':'') (fst r @ '':'' @ snd r)
          = fst r @ takeWhile (\<lambda>c. c \<noteq> CHR '':'') ('':'' @ snd r)"
      by (rule takeWhile_append2) (use that in auto)
    then show ?thesis by (simp add: canonical_key_def)
  qed
  from assms have f: "fst p = fst q" using cut [of p] cut [of q] by simp
  with assms(3) have "snd p = snd q" by (simp add: canonical_key_def)
  with f show ?thesis by (simp add: prod_eq_iff)
qed

lemma allTradeTags_pairs:
  "list_all (\<lambda>(category, value). case value of Multi vs \<Rightarrow> [] \<notin> set vs | Single v \<Rightarrow> True) tgs \<Longrightarrow>
   allTradeTags tgs =
     map canonical_key (concat (map (\<lambda>(category, value).
        map (Pair category) (filter (\<lambda>v. v \<noteq> []) (category_values value))) tgs))"
proof (induction tgs)
  case Nil
  then show ?case by (simp add: allTradeTags_def)
next
  case (Cons e tgs)
  obtain c v where e: "e = (c, v)" by (cases e)
  have full: "filter (\<lambda>x. x \<noteq> []) vs = vs" if "[] \<notin> set vs" for vs :: "string list"
    using that by (induction vs) auto
  have "allTradeTags (e # tgs)
        = map (\<lambda>x. c @ '':'' @ x) (filter (\<lambda>x. x \<noteq> []) (category_values v)) @ allTradeTags tgs"
    using Cons.prems by (cases v) (simp_all add: allTradeTags_def e category_values_def full)
  then show ?case using Cons by (simp add: e o_def canonical_key_def)
qed

lemma allTradeTags_tags_of:
  "well_tagged trade \<Longrightarrow> tags trade = Some tgs \<Longrightarrow>
   allTradeTags tgs = map canonical_key (tags_of trade)"
  by (simp add: well_tagged_def tags_of_def allTradeTags_pairs list_all_iff case_prod_unfold)

lemma distinct_pairs:
  "distinct (map fst tgs) \<Longrightarrow>
   list_all (\<lambda>(category, value). distinct (category_values value)) tgs \<Longrightarrow>
   distinct (concat (map (\<lambda>(category, value).
      map (Pair category) (filter (\<lambda>v. v \<noteq> []) (category_values value))) tgs))"
proof (induction tgs)
  case Nil
  then show ?case by simp
next
  case (Cons e tgs)
  obtain c v where e: "e = (c, v)" by (cases e)
  let ?rest = "concat (map (\<lambda>(category, value).
          map (Pair category) (filter (\<lambda>v. v \<noteq> []) (category_values value))) tgs)"
  have here: "distinct (map (Pair c) (filter (\<lambda>x. x \<noteq> []) (category_values v)))"
    using Cons.prems(2) by (simp add: e distinct_map inj_on_def)
  have rest: "fst q \<in> fst ` set tgs" if "q \<in> set ?rest" for q
    using that by force
  have "c \<notin> fst ` set tgs" using Cons.prems(1) by (simp add: e)
  then have "fst q \<noteq> c" if "q \<in> set ?rest" for q
    using rest [OF that] by auto
  then have apart: "set (map (Pair c) (filter (\<lambda>x. x \<noteq> []) (category_values v))) \<inter> set ?rest = {}"
    by fastforce
  have "distinct ?rest" using Cons by simp
  with here apart show ?case by (simp add: e)
qed

lemma distinct_tags_of: "well_tagged trade \<Longrightarrow> distinct (tags_of trade)"
  by (cases "tags trade")
     (auto simp: well_tagged_def tags_of_def list_all_iff intro!: distinct_pairs)

lemma tags_of_colon_free:
  "well_tagged trade \<Longrightarrow> p \<in> set (tags_of trade) \<Longrightarrow> CHR '':'' \<notin> set (fst p)"
  by (cases "tags trade") (auto simp: well_tagged_def tags_of_def list_all_iff)

lemma report_by_trade:
  assumes "list_all well_tagged trades"
  shows "significant_stats (tag_occurrences allTradeTags trades)
         = significant_tags canonical_key trades"
proof (rule significant_stats_by_trade)
  fix trade tgs assume "trade \<in> set trades" and "tags trade = Some tgs"
  then show "allTradeTags tgs = map canonical_key (tags_of trade)"
    using assms by (intro allTradeTags_tags_of) (simp_all add: list_all_iff)
next
  show "inj_on canonical_key (set (concat (map tags_of trades)))"
  proof (rule inj_onI)
    fix p q assume "p \<in> set (concat (map tags_of trades))"
      and "q \<in> set (concat (map tags_of trades))"
      and k: "canonical_key p = canonical_key q"
    then have "CHR '':'' \<notin> set (fst p)" and "CHR '':'' \<notin> set (fst q)"
      using assms by (auto simp: list_all_iff dest: tags_of_colon_free)
    then show "p = q" using k by (rule canonical_key_inj)
  qed
next
  fix trade assume "trade \<in> set trades"
  then show "distinct (tags_of trade)" using assms by (simp add: list_all_iff distinct_tags_of)
qed

lemma card_by_trade:
  assumes "list_all well_tagged trades" and "distinct_values trades"
  shows "significant_stats (tag_occurrences flatTagValues trades) = significant_tags snd trades"
proof (rule significant_stats_by_trade)
  fix trade tgs assume "trade \<in> set trades" and "tags trade = Some tgs"
  then show "flatTagValues tgs = map snd (tags_of trade)" by (simp add: flatTagValues_tags_of)
next
  have "inj_on snd (set (tags_in_order trades))"
    using assms(2) by (simp add: distinct_values_def distinct_map)
  then show "inj_on snd (set (concat (map tags_of trades)))"
    by (simp add: tags_in_order_def set_first_seen)
next
  fix trade assume "trade \<in> set trades"
  then show "distinct (tags_of trade)" using assms(1) by (simp add: list_all_iff distinct_tags_of)
qed

lemma significant_tags_threshold:
  "list_all (\<lambda>s. 3 \<le> tradeCount s) (significant_tags name trades)"
  by (simp add: significant_tags_def list_all_iff)

lemma breakout_by_trade:
  assumes "tags a = Some [(''strategy'', Multi [''Breakout''])]" "pnl a = 50"
    and "tags b = Some [(''strategy'', Multi [''Breakout''])]" "pnl b = 100"
    and "tags c = Some [(''strategy'', Multi [''Breakout''])]" "pnl c = 75"
  shows "list_all well_tagged [a, b, c]"
    and "significant_tags canonical_key [a, b] = []"
    and "significant_tags canonical_key [a, b, c]
         = [\<lparr>tag = ''strategy:Breakout'', totalPnl = 225, tradeCount = 3, winRate = 100\<rparr>]"
  using assms
  by (simp_all add: well_tagged_def category_values_def significant_tags_def tags_in_order_def
      tags_of_def spec_tag_stat_def trades_with_def carries_def canonical_key_def Let_def)

text \<open>
  C5 (as amended). On a journal of well-formed tags the significant tags of the report are
  exactly the tags carried by three or more trades, under their category-qualified keys and
  with the statistics of the trades that carry them, and the top lists of the report are
  those of positive total P&L, sorted by descending total and cut to 5, and those of
  negative total, sorted by ascending total and cut to 5. When in addition no value occurs
  under two categories, the lists of the tag performance card are the same with 3 in place
  of 5, under the bare values. No entry of these lists is carried by fewer than three
  trades. Two trades tagged strategy:Breakout with P&L +50 and +100 give no entry; a third
  with +75 gives the entry with total 225 and win rate 100.
\<close>

theorem C5_significant_tag_rankings:
  "(list_all well_tagged trades \<longrightarrow>
      map toTagStat (significantTags trades) = significant_tags canonical_key trades \<and>
      tagPerformance (analyzeTradesOffline toFixed trades t formatCurrency) =
        Some \<lparr>profitable = top_profitable 5 (significant_tags canonical_key trades),
              unprofitable = top_unprofitable 5 (significant_tags canonical_key trades)\<rparr>) \<and>
   (list_all well_tagged trades \<and> distinct_values trades \<longrightarrow>
      map card_view (tagStats trades) = significant_tags snd trades \<and>
      map card_view (topProfitable trades) = top_profitable 3 (significant_tags snd trades) \<and>
      map card_view (topUnprofitable trades) = top_unprofitable 3 (significant_tags snd trades)) \<and>
   list_all (\<lambda>s. 3 \<le> tradeCount s) (significant_tags name trades) \<and>
   list_all (\<lambda>s. 3 \<le> tradeCount s) (top_profitable n (significant_tags name trades)) \<and>
   list_all (\<lambda>s. 3 \<le> tradeCount s) (top_unprofitable n (significant_tags name trades)) \<and>
   (tags a = Some [(''strategy'', Multi [''Breakout''])] \<and> pnl a = 50 \<and>
    tags b = Some [(''strategy'', Multi [''Breakout''])] \<and> pnl b = 100 \<and>
    tags c = Some [(''strategy'', Multi [''Breakout''])] \<and> pnl c = 75 \<longrightarrow>
      tagPerformance (analyzeTradesOffline toFixed [a, b] t formatCurrency)
        = Some \<lparr>profitable = [], unprofitable = []\<rparr> \<and>
      tagPerformance (analyzeTradesOffline toFixed [a, b, c] t formatCurrency)
        = Some \<lparr>profitable = [\<lparr>tag = ''strategy:Breakout'', totalPnl = 225, tradeCount = 3,
                                 winRate = 100\<rparr>],
                 unprofitable = []\<rparr>)"
proof (intro conjI impI)
  assume w: "list_all well_tagged trades"
  show "map toTagStat (significantTags trades) = significant_tags canonical_key trades"
    by (simp only: report_stats report_by_trade [OF w])
  show "tagPerformance (analyzeTradesOffline toFixed trades t formatCurrency) =
        Some \<lparr>profitable = top_profitable 5 (significant_tags canonical_key trades),
              unprofitable = top_unprofitable 5 (significant_tags canonical_key trades)\<rparr>"
    by (simp only: tagPerformance_offline report_by_trade [OF w])
next
  assume "list_all well_tagged trades \<and> distinct_values trades"
  then have c: "significant_stats (tag_occurrences flatTagValues trades)
      = significant_tags snd trades"
    by (intro card_by_trade) simp_all
  show "map card_view (tagStats trades) = significant_tags snd trades"
    by (simp only: card_stats c)
  show "map card_view (topProfitable trades) = top_profitable 3 (significant_tags snd trades)"
    by (simp only: card_top_lists c)
  show "map card_view (topUnprofitable trades) = top_unprofitable 3 (significant_tags snd trades)"
    by (simp only: card_top_lists c)
next
  show "list_all (\<lambda>s. 3 \<le> tradeCount s) (significant_tags name trades)"
    by (rule significant_tags_threshold)
  show "list_all (\<lambda>s. 3 \<le> tradeCount s) (top_profitable n (significant_tags name trades))"
    by (rule top_profitable_threshold [OF significant_tags_threshold])
  show "list_all (\<lambda>s. 3 \<le> tradeCount s) (top_unprofitable n (significant_tags name trades))"
    by (rule top_unprofitable_threshold [OF significant_tags_threshold])
next
  assume e: "tags a = Some [(''strategy'', Multi [''Breakout''])] \<and> pnl a = 50 \<and>
    tags b = Some [(''strategy'', Multi [''Breakout''])] \<and> pnl b = 100 \<and>
    tags c = Some [(''strategy'', Multi [''Breakout''])] \<and> pnl c = 75"
  then have w3: "list_all well_tagged [a, b, c]"
    and two: "significant_tags canonical_key [a, b] = []"
    and three: "significant_tags canonical_key [a, b, c]
         = [\<lparr>tag = ''strategy:Breakout'', totalPnl = 225, tradeCount = 3, winRate = 100\<rparr>]"
    using breakout_by_trade [of a b c] by blast+
  from w3 have w2: "list_all well_tagged [a, b]" by simp
  show "tagPerformance (analyzeTradesOffline toFixed [a, b] t formatCurrency)
        = Some \<lparr>profitable = [], unprofitable = []\<rparr>"
    by (simp add: tagPerformance_offline report_by_trade [OF w2] two top_profitable_def
        top_unprofitable_def)
  show "tagPerformance (analyzeTradesOffline toFixed [a, b, c] t formatCurrency)
        = Some \<lparr>profitable = [\<lparr>tag = ''strategy:Breakout'', totalPnl = 225, tradeCount = 3,
                                 winRate = 100\<rparr>],
                 unprofitable = []\<rparr>"
    by (simp add: tagPerformance_offline report_by_trade [OF w3] three top_profitable_def
        top_unprofitable_def)
qed

theorem C5_significant_tag_rankings_witness:
  "list_all well_tagged [breakout 50, breakout 100, breakout 75] \<and>
   distinct_values [breakout 50, breakout 100, breakout 75] \<and>
   tagPerformance (analyzeTradesOffline plain_toFixed [breakout 50, breakout 100] plain_t plain_currency)
     = Some \<lparr>profitable = [], unprofitable = []\<rparr> \<and>
   tagPerformance (analyzeTradesOffline plain_toFixed [breakout 50, breakout 100, breakout 75]
       plain_t plain_currency)
     = Some \<lparr>profitable = [\<lparr>tag = ''strategy:Breakout'', totalPnl = 225, tradeCount = 3,
                              winRate = 100\<rparr>],
              unprofitable = []\<rparr> \<and>
   map card_view (topProfitable [breakout 50, breakout 100, breakout 75])
     = [\<lparr>tag = ''Breakout'', totalPnl = 225, tradeCount = 3, winRate = 100\<rparr>]"
proof -
  let ?three = "[breakout 50, breakout 100, breakout 75]"
  have b: "tags (breakout p) = Some [(''strategy'', Multi [''Breakout''])]" "pnl (breakout p) = p"
    for p by (simp_all add: breakout_def)
  have w: "list_all well_tagged ?three"
    by (simp add: well_tagged_def b category_values_def)
  have d: "distinct_values ?three"
    by (simp add: distinct_values_def tags_in_order_def tags_of_def b category_values_def)
  have v: "top_profitable 3 (significant_tags snd ?three)
           = [\<lparr>tag = ''Breakout'', totalPnl = 225, tradeCount = 3, winRate = 100\<rparr>]"
    by (simp add: significant_tags_def tags_in_order_def tags_of_def b category_values_def
        spec_tag_stat_def trades_with_def carries_def Let_def top_profitable_def)
  note inst = C5_significant_tag_rankings [of ?three plain_toFixed plain_t plain_currency snd 3
      "breakout 50" "breakout 100" "breakout 75"]
  from inst w d have "map card_view (topProfitable ?three)
      = top_profitable 3 (significant_tags snd ?three)"
    by blast
  then have card: "map card_view (topProfitable ?three)
      = [\<lparr>tag = ''Breakout'', totalPnl = 225, tradeCount = 3, winRate = 100\<rparr>]"
    using v by (rule trans)
  from inst b w d card show ?thesis by blast
qed

text \<open>The claim as first stated is about every journal. The code counts the occurrences
  of a key, not the trades that carry the tag: two trades that carry the value London under
  both session and custom give the card an entry London of trade count 4, and two trades
  whose strategy lists Breakout twice give the report an entry strategy:Breakout of trade
  count 4, although each tag is carried by two trades only and no tag is significant.\<close>

theorem C5_repeated_value_counterexample:
  "length (trades_with (''session'', ''London'') [london 40, london 60]) = 2 \<and>
   length (trades_with (''custom'', ''London'') [london 40, london 60]) = 2 \<and>
   significant_tags snd [london 40, london 60] = [] \<and>
   map card_view (topProfitable [london 40, london 60])
     = [\<lparr>tag = ''London'', totalPnl = 200, tradeCount = 4, winRate = 100\<rparr>] \<and>
   length (trades_with (''strategy'', ''Breakout'') [breakout_twice 50, breakout_twice 100]) = 2 \<and>
   significant_tags canonical_key [breakout_twice 50, breakout_twice 100] = [] \<and>
   tagPerformance (analyzeTradesOffline plain_toFixed [breakout_twice 50, breakout_twice 100]
       plain_t plain_currency)
     = Some \<lparr>profitable = [\<lparr>tag = ''strategy:Breakout'', totalPnl = 300, tradeCount = 4,
                              winRate = 100\<rparr>],
              unprofitable = []\<rparr>"
proof -
  have l: "tags (london p) = Some [(''session'', Multi [''London'']), (''custom'', Multi [''London''])]"
    "pnl (london p) = p" for p by (simp_all add: london_def)
  have r: "tags (breakout_twice p) = Some [(''strategy'', Multi [''Breakout'', ''Breakout''])]"
    "pnl (breakout_twice p) = p" for p by (simp_all add: breakout_twice_def)
  have carried: "length (trades_with (''session'', ''London'') [london 40, london 60]) = 2"
    "length (trades_with (''custom'', ''London'') [london 40, london 60]) = 2"
    "length (trades_with (''strategy'', ''Breakout'') [breakout_twice 50, breakout_twice 100]) = 2"
    by (simp_all add: trades_with_def carries_def tags_of_def l r category_values_def)
  have none: "significant_tags snd [london 40, london 60] = []"
    "significant_tags canonical_key [breakout_twice 50, breakout_twice 100] = []"
    by (simp_all add: significant_tags_def tags_in_order_def spec_tag_stat_def Let_def
        trades_with_def carries_def tags_of_def l r category_values_def)
  have card: "map card_view (topProfitable [london 40, london 60])
     = [\<lparr>tag = ''London'', totalPnl = 200, tradeCount = 4, winRate = 100\<rparr>]"
    by (simp add: card_top_lists significant_stats_def tag_occurrences_def flatTagValues_def
        tally_def pnls_of_def top_profitable_def l)
  have report: "tagPerformance (analyzeTradesOffline plain_toFixed
       [breakout_twice 50, breakout_twice 100] plain_t plain_currency)
     = Some \<lparr>profitable = [\<lparr>tag = ''strategy:Breakout'', totalPnl = 300, tradeCount = 4,
                              winRate = 100\<rparr>],
              unprofitable = []\<rparr>"
    by (simp add: tagPerformance_offline significant_stats_def tag_occurrences_def allTradeTags_def
        tally_def pnls_of_def top_profitable_def top_unprofitable_def r)
  from carried none card report show ?thesis by simp
qed

subsection \<open>Golden hour\<close>

lemma getHours_sample:
  "getHours ''2024-03-01'' [] = None" "getHours ''2024-03-04'' [] = None"
  "getHours ''2024-03-05'' [] = None" "getHours ''2024-03-06'' [] = None"
  "getHours ''2024-03-07'' [] = None"
  "getHours ''2024-03-01'' ''10:15'' = Some 10" "getHours ''2024-03-04'' ''10:20'' = Some 10"
  "getHours ''2024-03-05'' ''10:05'' = Some 10" "getHours ''2024-03-06'' ''10:40'' = Some 10"
  "getHours ''2024-03-07'' ''10:59'' = Some 10"
  by (simp_all add: getHours_def isoDate_def two_digits_def is_digit_def)

lemma significantHours_untimed:
  "significantHours untimed_wins = [\<lparr>hour = None, pnl_sh = 500, count_sh = 5, avgPnl_sh = 100\<rparr>]"
  by (simp add: significantHours_def hourlyStats_def untimed_wins_def timed_trade_def
      getHours_sample Let_def)

lemma significantHours_mixed:
  "significantHours (morning_wins @ untimed_wins) =
     [\<lparr>hour = None, pnl_sh = 500, count_sh = 5, avgPnl_sh = 100\<rparr>,
      \<lparr>hour = Some 10, pnl_sh = 50, count_sh = 5, avgPnl_sh = 10\<rparr>]"
  by (simp add: significantHours_def hourlyStats_def untimed_wins_def morning_wins_def
      timed_trade_def getHours_sample Let_def)

lemma significantHours_timed_only:
  "significantHours (filter has_time (morning_wins @ untimed_wins)) =
     [\<lparr>hour = Some 10, pnl_sh = 50, count_sh = 5, avgPnl_sh = 10\<rparr>]"
  "significantHours (filter has_time untimed_wins) = []"
  by (simp_all add: significantHours_def hourlyStats_def untimed_wins_def morning_wins_def
      timed_trade_def getHours_sample Let_def has_time_def)

text \<open>
  C7, at the failing inputs. \<^verbatim>\<open>findGoldenHour\<close> does not skip trades without a time:
  their date does not parse, their hour is \<^verbatim>\<open>NaN\<close>, and \<^verbatim>\<open>NaN\<close> is a bucket of
  its own. Five untimed winning trades alone produce the insight, for the hour
  \<^verbatim>\<open>NaN:00\<close>, where the timed trades alone (there are none) produce nothing; next to
  five timed trades of the hour 10 with a lower average they take the first place from
  that hour.
\<close>

theorem C7_untimed_trades_bucketed:
  "findGoldenHour untimed_wins t formatCurrency =
     Some \<lparr>pattern = t ''aiInsights.offline.goldenHourPattern''
             [(''startTime'', ''NaN:00''), (''endTime'', ''NaN:00''),
              (''avgPnl'', formatCurrency 100)],
           recommendation = t ''aiInsights.offline.goldenHourRec'' [],
           relatedTags = [], topic = Some Timing\<rparr> \<and>
   findGoldenHour (filter has_time untimed_wins) t formatCurrency = None \<and>
   map hour (significantHours (morning_wins @ untimed_wins)) = [None, Some 10] \<and>
   map hour (significantHours (filter has_time (morning_wins @ untimed_wins))) = [Some 10]"
  by (simp add: findGoldenHour_def significantHours_untimed significantHours_mixed
      significantHours_timed_only show_hour_def Let_def del: filter_append)

subsection \<open>Report import\<close>

lemma findIndex_None: "(findIndex P xs = None) = (\<not> list_ex P xs)"
  by (simp add: findIndex_def)

lemma headerColumns_None: "(headerColumns row = None) = (\<not> is_header_row row)"
proof -
  have h: "list_ex (\<lambda>h. includes_str h name) (map (\<lambda>c. toLowerCase (trim (textContent c))) row)
           = has_header name row" for name
    by (simp add: has_header_def list_ex_iff)
  show ?thesis
    unfolding headerColumns_def Let_def is_header_row_def h [symmetric]
    by (simp add: findIndex_None [symmetric] split: option.splits)
qed

lemma findHeaderRow_None: "(findHeaderRow rows i = None) = (\<not> list_ex is_header_row rows)"
  by (induction rows arbitrary: i) (simp_all add: headerColumns_None [symmetric] split: option.splits)

lemma upper_char_idem: "upper_char (upper_char c) = upper_char c"
proof (cases "CHR ''a'' \<le> c \<and> c \<le> CHR ''z''")
  case True
  then have r: "97 \<le> (of_char c :: nat)" "(of_char c :: nat) \<le> 122"
    by (simp_all add: less_eq_char_def)
  have u: "upper_char c = char_of ((of_char c :: nat) - 32)"
    using True by (simp add: upper_char_def)
  have "(of_char (upper_char c) :: nat) = of_char c - 32"
    using r by (simp add: u)
  then have "\<not> CHR ''a'' \<le> upper_char c"
    using r by (simp add: less_eq_char_def)
  then show ?thesis by (simp add: upper_char_def [of "upper_char c"])
next
  case False
  then have "upper_char c = c" unfolding upper_char_def by (simp only: if_False)
  then show ?thesis by simp
qed

lemma toUpperCase_idem: "toUpperCase (toUpperCase s) = toUpperCase s"
  by (simp add: toUpperCase_def upper_char_idem)

lemma mt4Row_Some:
  assumes "mt4Row parseFloat newId cols i row = Some tr"
  shows "qualifies parseFloat cols row" and "pnl tr = rowPnl parseFloat cols row"
    and "pair tr = rowSymbol cols row"
    and "ttype tr = Some (if rowType cols row = ''buy'' then Long else Short)"
    and "tags tr = Some []"
  using assms
  unfolding mt4Row_def qualifies_def rowType_def rowSymbol_def rowPnl_def tdCells_def Let_def
  by (auto split: if_splits)

lemma mt4Row_imported_ok:
  assumes "mt4Row parseFloat newId cols i row = Some tr"
  shows "imported_ok tr"
  using mt4Row_Some [OF assms]
  by (auto simp: imported_ok_def qualifies_def rowSymbol_def toUpperCase_idem)

lemma mt4Rows_all:
  assumes "\<And>i row tr. mt4Row parseFloat newId cols i row = Some tr \<Longrightarrow> P tr"
  shows "list_all P (mt4Rows parseFloat newId cols i rows)"
  using assms
  by (induction rows arbitrary: i) (auto simp: option_list_def split: option.splits)

lemma mt4Rows_none:
  "\<not> list_ex (qualifies parseFloat cols) rows \<Longrightarrow> mt4Rows parseFloat newId cols i rows = []"
proof (induction rows arbitrary: i)
  case Nil
  then show ?case by simp
next
  case (Cons row rows)
  then have "mt4Row parseFloat newId cols i row = None"
    using mt4Row_Some(1) [of parseFloat newId cols i row] by (cases "mt4Row parseFloat newId cols i row") auto
  with Cons show ?case by (simp add: option_list_def)
qed

lemma mt5Row_Some:
  assumes "mt5Row parseFloat readDate newId header index row = Some tr"
  shows "imported_ok tr"
    and "sheetType header row = ''buy'' \<or> sheetType header row = ''sell''"
    and "ttype tr = Some (if sheetType header row = ''buy'' then Long else Short)"
  using assms
  unfolding mt5Row_def sheetType_def Let_def imported_ok_def
  by (auto simp: toUpperCase_idem split: if_splits option.splits prod.splits)

lemma mt5Rows_all:
  assumes "\<And>i row tr. mt5Row parseFloat readDate newId header i row = Some tr \<Longrightarrow> P tr"
  shows "list_all P (mt5Rows parseFloat readDate newId header i rows)"
  using assms
  by (induction rows arbitrary: i) (auto simp: option_list_def split: option.splits)

lemma parseMt4Trades_Inr:
  assumes "parseMt4Trades parseFloat newId doc = Inr ts"
  shows "ts \<noteq> [] \<and> list_all imported_ok ts"
proof -
  from assms obtain rows h cols where
    ts: "ts = mt4Rows parseFloat newId cols (h + 1) (drop (h + 1) rows)" and ne: "ts \<noteq> []"
    unfolding parseMt4Trades_def Let_def
    by (auto split: option.splits prod.splits if_splits)
  have "list_all imported_ok (mt4Rows parseFloat newId cols (h + 1) (drop (h + 1) rows))"
    by (rule mt4Rows_all) (rule mt4Row_imported_ok)
  with ts ne show ?thesis by simp
qed

lemma parseMt5Trades_Inr:
  assumes "parseMt5Trades parseFloat readDate newId workbook = Inr ts"
  shows "ts \<noteq> [] \<and> list_all imported_ok ts"
proof -
  from assms obtain header rows where
    ts: "ts = mt5Rows parseFloat readDate newId header 0 rows" and ne: "ts \<noteq> []"
    unfolding parseMt5Trades_def Let_def
    by (auto split: list.splits option.splits prod.splits if_splits)
  have "list_all imported_ok (mt5Rows parseFloat readDate newId header 0 rows)"
    by (rule mt5Rows_all) (rule mt5Row_Some(1))
  with ts ne show ?thesis by simp
qed

lemma parseMt4Trades_no_header:
  assumes "locateTable doc = Some rows" and "\<not> list_ex is_header_row rows"
  shows "parseMt4Trades parseFloat newId doc = Inl NoHeaderRow"
proof -
  have "findHeaderRow rows 0 = None" using assms(2) by (simp add: findHeaderRow_None)
  then show ?thesis using assms(1) by (simp add: parseMt4Trades_def)
qed

lemma no_profit_no_header:
  "\<not> list_ex (has_header ''profit'') rows \<Longrightarrow> \<not> list_ex is_header_row rows"
  by (auto simp: list_ex_iff is_header_row_def)

lemma parseMt4Trades_no_valid:
  assumes "locateTable doc = Some rows" and "findHeaderRow rows 0 = Some (h, cols)"
    and "\<not> list_ex (qualifies parseFloat cols) (drop (h + 1) rows)"
  shows "parseMt4Trades parseFloat newId doc = Inl NoValidTrades"
  using assms by (simp add: parseMt4Trades_def mt4Rows_none)

text \<open>
  C8. Once a table is located, the HTML parser fails with the header-row error whenever no
  row of that table has all four headers open time, type, symbol and profit (each as a
  substring of some cell, case-insensitively) - in particular whenever no cell of the table
  mentions profit. It fails with the no-valid-trades error whenever no row after the header
  row has a type that is buy or sell, a non-zero P&L and a non-empty symbol. In no case
  does it return an empty list of trades.
\<close>

theorem C8_mt4_errors:
  "(locateTable doc = Some rows \<and> \<not> list_ex is_header_row rows \<longrightarrow>
      parseMt4Trades parseFloat newId doc = Inl NoHeaderRow) \<and>
   (locateTable doc = Some rows \<and> \<not> list_ex (has_header ''profit'') rows \<longrightarrow>
      parseMt4Trades parseFloat newId doc = Inl NoHeaderRow) \<and>
   (locateTable doc = Some rows \<and> findHeaderRow rows 0 = Some (h, cols) \<and>
    \<not> list_ex (qualifies parseFloat cols) (drop (h + 1) rows) \<longrightarrow>
      parseMt4Trades parseFloat newId doc = Inl NoValidTrades) \<and>
   parseMt4Trades parseFloat newId doc \<noteq> Inr []"
  using parseMt4Trades_no_header no_profit_no_header parseMt4Trades_no_valid
    parseMt4Trades_Inr [of parseFloat newId doc "[]"]
  by blast

text \<open>
  C9. Every trade that either import parser returns has a non-zero P&L, a non-empty pair
  that is its own upper-case form, the type long or short, and the empty tag record. The
  type is long exactly for a row whose type cell reads buy and short for one that reads
  sell.
\<close>

theorem C9_imported_trades:
  "(parseMt4Trades parseFloat newId doc = Inr ts \<longrightarrow> list_all imported_ok ts) \<and>
   (parseMt5Trades parseFloat readDate newId workbook = Inr ts' \<longrightarrow> list_all imported_ok ts') \<and>
   (mt4Row parseFloat newId cols i row = Some tr \<longrightarrow>
      (rowType cols row = ''buy'' \<or> rowType cols row = ''sell'') \<and>
      ttype tr = Some (if rowType cols row = ''buy'' then Long else Short)) \<and>
   (mt5Row parseFloat readDate newId header i' row' = Some tr' \<longrightarrow>
      (sheetType header row' = ''buy'' \<or> sheetType header row' = ''sell'') \<and>
      ttype tr' = Some (if sheetType header row' = ''buy'' then Long else Short))"
  using parseMt4Trades_Inr [of parseFloat newId doc ts]
    parseMt5Trades_Inr [of parseFloat readDate newId workbook ts']
    mt4Row_Some(1,4) [of parseFloat newId cols i row tr]
    mt5Row_Some(2,3) [of parseFloat readDate newId header i' row' tr']
  unfolding qualifies_def by blast

lemma statement_parsed:
  "parseMt4Trades parseFloat_decimal row_id statement = Inr statement_trades"
  by code_simp

lemma positions_parsed:
  "parseMt5Trades parseFloat_decimal sample_readDate row_id [positions_sheet] = Inr positions_trades"
  by code_simp

theorem C9_imported_trades_witness:
  "parseMt4Trades parseFloat_decimal row_id statement = Inr statement_trades \<and>
   list_all imported_ok statement_trades \<and>
   parseMt5Trades parseFloat_decimal sample_readDate row_id [positions_sheet] = Inr positions_trades \<and>
   list_all imported_ok positions_trades"
  using C9_imported_trades [of parseFloat_decimal row_id statement statement_trades
      sample_readDate "[positions_sheet]" positions_trades]
    statement_parsed positions_parsed
  by blast

lemma no_profit_located:
  "locateTable no_profit_statement = Some no_profit_rows"
  "\<not> list_ex (has_header ''profit'') no_profit_rows"
  by code_simp+

lemma deposit_located:
  "locateTable deposit_statement = Some deposit_rows"
  "findHeaderRow deposit_rows 0 = Some (0, \<lparr>openTime = 1, type_col = 2, symbol = 4, profit = 5\<rparr>)"
  "\<not> list_ex (qualifies parseFloat_decimal \<lparr>openTime = 1, type_col = 2, symbol = 4, profit = 5\<rparr>)
       (drop (0 + 1) deposit_rows)"
  by code_simp+

theorem C8_mt4_errors_witness:
  "locateTable no_profit_statement = Some no_profit_rows \<and>
   \<not> list_ex (has_header ''profit'') no_profit_rows \<and>
   parseMt4Trades parseFloat_decimal row_id no_profit_statement = Inl NoHeaderRow \<and>
   locateTable deposit_statement = Some deposit_rows \<and>
   parseMt4Trades parseFloat_decimal row_id deposit_statement = Inl NoValidTrades"
  using C8_mt4_errors [of no_profit_statement no_profit_rows parseFloat_decimal row_id]
    C8_mt4_errors [of deposit_statement deposit_rows parseFloat_decimal row_id 0
      "\<lparr>openTime = 1, type_col = 2, symbol = 4, profit = 5\<rparr>"]
    no_profit_located deposit_located
  by blast

end
